theory Spec2Isabelle
  imports Complex_Main "HOL-Library.Sublist"
begin

section \<open>Values, errors and the Python runtime\<close>

text \<open>
  The three agents of CareerCompass (\<^verbatim>\<open>agents/domain_reasoning.py\<close>,
  \<^verbatim>\<open>agents/recommendation.py\<close>, \<^verbatim>\<open>agents/coordinator.py\<close>) work on the values
  that \<^verbatim>\<open>json.loads\<close> returns. A dict is an association list in insertion order,
  looked up with \<open>map_of\<close>. A float is modelled by the real number it denotes: the code
  only copies and compares floats, it never computes with them. The literals
  \<^verbatim>\<open>NaN\<close> and \<^verbatim>\<open>Infinity\<close>, which \<^verbatim>\<open>json.loads\<close> accepts, have no
  counterpart here. JSON \<^verbatim>\<open>null\<close> is Python's \<^verbatim>\<open>None\<close>.

  Text is a \<open>string\<close>; the few non-ASCII characters of the source are written as
  their UTF-8 bytes. A leading underscore of a Python name is dropped, since an
  Isabelle name cannot start with one.
\<close>

datatype json =
    JNull
  | JBool bool
  | JInt int
  | JFloat real
  | JStr string
  | JArr "json list"
  | JObj "(string \<times> json) list"

text \<open>The exceptions that the agents can raise on a value of an unexpected type.\<close>

datatype error = AttributeError | TypeError | ValueError | OverflowError | KeyError | IndexError

datatype message = SystemMessage string | HumanMessage string

text \<open>
  The completion backend (\<^verbatim>\<open>_llm.invoke(messages).content\<close>) is a parameter of every
  stage. A stage returns the list of the calls it made together with its outcome, so
  that "no backend call" is a property of the result.
\<close>

type_synonym backend = "message list \<Rightarrow> string"

type_synonym 'a outcome = "message list list \<times> (error + 'a)"

text \<open>Sequencing: an exception ends the function, a value goes on to the next statement.\<close>

definition and_then :: "error + 'a \<Rightarrow> ('a \<Rightarrow> error + 'b) \<Rightarrow> error + 'b" where
  "and_then r f = (case r of Inl e \<Rightarrow> Inl e | Inr v \<Rightarrow> f v)"

text \<open>
  What the code uses of Python itself is a parameter too: \<^verbatim>\<open>json.loads\<close> (\<open>None\<close> for
  \<^verbatim>\<open>JSONDecodeError\<close>), \<^verbatim>\<open>str.lower\<close> and \<^verbatim>\<open>str.strip\<close> (both follow Unicode
  tables), the characters that iterating over a \<^verbatim>\<open>str\<close> yields, \<^verbatim>\<open>str()\<close> of a
  value that is not a \<^verbatim>\<open>str\<close>, and \<^verbatim>\<open>float()\<close> of an \<^verbatim>\<open>int\<close> and of a
  \<^verbatim>\<open>str\<close>.
\<close>

record runtime =
  json_loads :: "string \<Rightarrow> json option"
  str_lower :: "string \<Rightarrow> string"
  str_strip :: "string \<Rightarrow> string"
  str_items :: "string \<Rightarrow> string list"
  to_str :: "json \<Rightarrow> string"
  float_of_int :: "int \<Rightarrow> error + real"
  float_of_str :: "string \<Rightarrow> error + real"

definition em_dash :: string where
  "em_dash = [CHR 0xE2, CHR 0x80, CHR 0x94]"

definition en_dash :: string where
  "en_dash = [CHR 0xE2, CHR 0x80, CHR 0x93]"

text \<open>Python's truth value of a JSON value, as \<^verbatim>\<open>or\<close>, \<^verbatim>\<open>not\<close> and \<^verbatim>\<open>if\<close> use it.\<close>

fun truthy :: "json \<Rightarrow> bool" where
  "truthy JNull = False"
| "truthy (JBool b) = b"
| "truthy (JInt n) = (n \<noteq> 0)"
| "truthy (JFloat r) = (r \<noteq> 0)"
| "truthy (JStr s) = (s \<noteq> [])"
| "truthy (JArr xs) = (xs \<noteq> [])"
| "truthy (JObj items) = (items \<noteq> [])"

text \<open>\<^verbatim>\<open>d.get(key, dflt)\<close> on the items of a dict.\<close>

definition get_or :: "(string \<times> json) list \<Rightarrow> string \<Rightarrow> json \<Rightarrow> json" where
  "get_or items key dflt = (case map_of items key of Some v \<Rightarrow> v | None \<Rightarrow> dflt)"

text \<open>\<^verbatim>\<open>d.get(key, dflt)\<close> on a value: only a dict has the method.\<close>

definition dict_get :: "json \<Rightarrow> string \<Rightarrow> json \<Rightarrow> error + json" where
  "dict_get d key dflt =
     (case d of
        JObj items \<Rightarrow> Inr (get_or items key dflt)
      | _ \<Rightarrow> Inl AttributeError)"

text \<open>\<^verbatim>\<open>v.lower()\<close>: only a \<^verbatim>\<open>str\<close> has the method.\<close>

definition py_lower :: "runtime \<Rightarrow> json \<Rightarrow> error + string" where
  "py_lower py v = (case v of JStr s \<Rightarrow> Inr (str_lower py s) | _ \<Rightarrow> Inl AttributeError)"

text \<open>\<^verbatim>\<open>float(v)\<close>.\<close>

definition py_float :: "runtime \<Rightarrow> json \<Rightarrow> error + real" where
  "py_float py v =
     (case v of
        JFloat r \<Rightarrow> Inr r
      | JInt n \<Rightarrow> float_of_int py n
      | JBool b \<Rightarrow> Inr (if b then 1 else 0)
      | JStr s \<Rightarrow> float_of_str py s
      | _ \<Rightarrow> Inl TypeError)"

text \<open>The value of \<^verbatim>\<open>{v}\<close> in an f-string: a \<^verbatim>\<open>str\<close> is itself.\<close>

definition fmt :: "runtime \<Rightarrow> json \<Rightarrow> string" where
  "fmt py v = (case v of JStr s \<Rightarrow> s | _ \<Rightarrow> to_str py v)"

text \<open>\<^verbatim>\<open>kw in s\<close> on two strings: \<open>kw\<close> occurs in \<open>s\<close> as a contiguous piece.\<close>

fun contains :: "string \<Rightarrow> string \<Rightarrow> bool" where
  "contains kw [] = (kw = [])"
| "contains kw (c # cs) = (prefix kw (c # cs) \<or> contains kw cs)"

text \<open>\<^verbatim>\<open>sep.join(xs)\<close> on a list of strings.\<close>

fun join :: "string \<Rightarrow> string list \<Rightarrow> string" where
  "join sep [] = []"
| "join sep [x] = x"
| "join sep (x # y # ys) = x @ sep @ join sep (y # ys)"

text \<open>
  \<^verbatim>\<open>sep.join(v)\<close> on a JSON value: a list must hold only strings, a \<^verbatim>\<open>str\<close> gives its
  characters, a dict its keys, and anything else is not iterable.
\<close>

fun the_strs :: "json list \<Rightarrow> string list option" where
  "the_strs [] = Some []"
| "the_strs (JStr s # vs) = (case the_strs vs of Some ss \<Rightarrow> Some (s # ss) | None \<Rightarrow> None)"
| "the_strs (_ # vs) = None"

definition py_join :: "runtime \<Rightarrow> string \<Rightarrow> json \<Rightarrow> error + string" where
  "py_join py sep v =
     (case v of
        JArr xs \<Rightarrow> (case the_strs xs of Some ss \<Rightarrow> Inr (join sep ss) | None \<Rightarrow> Inl TypeError)
      | JStr s \<Rightarrow> Inr (join sep (str_items py s))
      | JObj items \<Rightarrow> Inr (join sep (map fst items))
      | _ \<Rightarrow> Inl TypeError)"

section \<open>The state contract (\<^verbatim>\<open>state/schema.py\<close>)\<close>

text \<open>
  \<^verbatim>\<open>AssistantState\<close>. Every field but \<open>user_input\<close> is optional and starts as
  \<open>None\<close>. \<^verbatim>\<open>model_copy(update=...)\<close> does not validate, so the two fields that
  receive a value straight from the backend's JSON, \<open>missing_information\<close> and
  \<open>recommendations\<close>, can hold any JSON value; the others only ever receive values of
  their declared type.
\<close>

record AssistantState =
  user_input :: string
  interpreted_goal :: "string option"
  extracted_constraints :: "string list option"
  missing_information :: "json option"
  confidence_score :: "real option"
  decision_type :: "string option"
  recommendations :: "json option"
  final_response :: "string option"

text \<open>The two arms that Recommendation and Coordinator choose between.\<close>

datatype branch = Comparison | DirectPath

definition initial_state :: "string \<Rightarrow> AssistantState" where
  "initial_state query =
     \<lparr> user_input = query, interpreted_goal = None, extracted_constraints = None,
       missing_information = None, confidence_score = None, decision_type = None,
       recommendations = None, final_response = None \<rparr>"

text \<open>Storing a Python value in an optional field: \<^verbatim>\<open>None\<close> leaves it unset.\<close>

definition optional :: "json \<Rightarrow> json option" where
  "optional v = (if v = JNull then None else Some v)"

text \<open>Storing in \<open>interpreted_goal\<close>, where the value is a \<^verbatim>\<open>str\<close> or \<^verbatim>\<open>None\<close>.\<close>

definition str_field :: "json \<Rightarrow> string option" where
  "str_field v = (case v of JStr s \<Rightarrow> Some s | _ \<Rightarrow> None)"

text \<open>\<^verbatim>\<open>field or dflt\<close> on an optional JSON field.\<close>

definition or_else :: "json option \<Rightarrow> json \<Rightarrow> json" where
  "or_else field dflt =
     (case field of None \<Rightarrow> dflt | Some v \<Rightarrow> if truthy v then v else dflt)"

text \<open>\<^verbatim>\<open>field or dflt\<close> on an optional \<^verbatim>\<open>str\<close> or list field.\<close>

definition or_list :: "'a list option \<Rightarrow> 'a list \<Rightarrow> 'a list" where
  "or_list field dflt =
     (case field of None \<Rightarrow> dflt | Some v \<Rightarrow> if v \<noteq> [] then v else dflt)"

section \<open>Domain Reasoning (\<^verbatim>\<open>agents/domain_reasoning.py\<close>)\<close>

definition SYSTEM_PROMPT :: string where
  "SYSTEM_PROMPT =
     ''You are a domain reasoning engine for a Student Career Planning Assistant.\<newline>''
   @ ''\<newline>''
   @ ''Your job is to parse the student's query and return a JSON object with exactly these keys:\<newline>''
   @ ''  - interpreted_goal   : string '' @ em_dash @ '' what the student is trying to decide or achieve\<newline>''
   @ ''  - extracted_constraints : list of strings '' @ em_dash @ '' preferences, limits, or context clues mentioned\<newline>''
   @ ''  - missing_information   : list of strings '' @ em_dash @ '' what additional info would sharpen the analysis\<newline>''
   @ ''  - confidence_score      : float between 0.0 and 1.0\<newline>''
   @ ''\<newline>''
   @ ''Confidence scoring guide:\<newline>''
   @ ''  - 0.9'' @ en_dash @ ''1.0 : query is specific, constraints are clear, goal is unambiguous\<newline>''
   @ ''  - 0.7'' @ en_dash @ ''0.89: goal is reasonably clear but some context is missing\<newline>''
   @ ''  - 0.5'' @ en_dash @ ''0.69: goal is vague or multiple interpretations are equally plausible\<newline>''
   @ ''  - below 0.5: query is too ambiguous to reason about usefully\<newline>''
   @ ''\<newline>''
   @ ''Return ONLY valid JSON. No prose. No markdown fences.\<newline>''"

text \<open>The dict \<^verbatim>\<open>explicit_keywords\<close>, in its insertion order.\<close>

definition explicit_keywords :: "(string \<times> string list) list" where
  "explicit_keywords =
     [(''time'', [''limited time'', ''short on time'', ''urgent'', ''deadline'', ''soon'']),
      (''budget'', [''limited budget'', ''can't afford'', ''cheap'', ''free'']),
      (''experience'', [''beginner'', ''just starting'', ''no experience'', ''new to'']),
      (''priority'', [''need a job'', ''job priority'', ''employment'', ''urgent'']),
      (''interest'', [''love'', ''passion'', ''interested in'', ''enjoy'']),
      (''skill_gap'', [''don't know'', ''unfamiliar'', ''never learned''])]"

text \<open>\<^verbatim>\<open>any(kw in text for kw in keywords)\<close>.\<close>

definition any_in :: "string list \<Rightarrow> string \<Rightarrow> bool" where
  "any_in keywords text = list_ex (\<lambda>kw. contains kw text) keywords"

text \<open>The loop over the categories, appending to \<^verbatim>\<open>found_constraints\<close>.\<close>

fun scan_categories :: "string \<Rightarrow> (string \<times> string list) list \<Rightarrow> string list \<Rightarrow> string list" where
  "scan_categories user_lower [] found_constraints = found_constraints"
| "scan_categories user_lower ((category, keywords) # rest) found_constraints =
     scan_categories user_lower rest
       (if any_in keywords user_lower then found_constraints @ [category]
        else found_constraints)"

definition extract_explicit_constraints :: "runtime \<Rightarrow> string \<Rightarrow> string list" where
  "extract_explicit_constraints py text =
     (let user_lower = str_lower py text
      in scan_categories user_lower explicit_keywords [])"

definition context_keywords :: "string list" where
  "context_keywords =
     [''first year'', ''second year'', ''third year'', ''fourth year'',
      ''freshman'', ''sophomore'', ''junior'', ''senior'',
      ''year 1'', ''year 2'', ''year 3'', ''year 4'',
      ''experience'', ''worked with'', ''built with'', ''used'', ''familiar with'', ''studied'',
      ''python'', ''javascript'', ''java'', ''c++'', ''react'', ''django'', ''nodejs'',
      ''sql'', ''databases'', ''api'', ''aws'', ''cloud'',
      ''currently'', ''doing'', ''working on'', ''taking'', ''course'']"

definition has_background_context :: "runtime \<Rightarrow> string \<Rightarrow> bool" where
  "has_background_context py text =
     (let user_lower = str_lower py text
      in any_in context_keywords user_lower)"

definition adjust_confidence_for_comparison :: "runtime \<Rightarrow> real \<Rightarrow> string \<Rightarrow> string \<Rightarrow> real" where
  "adjust_confidence_for_comparison py confidence kind text =
     (if kind \<noteq> ''comparison'' then confidence
      else
        let has_context = has_background_context py text
        in if \<not> has_context then min confidence 0.67 else confidence)"

definition comparison_keywords :: "string list" where
  "comparison_keywords = ['' or '', ''vs'', ''which'', ''better'', ''compare'']"

text \<open>The dict that replaces the backend's answer when it is not JSON.\<close>

definition parse_fallback :: json where
  "parse_fallback =
     JObj [(''interpreted_goal'', JStr ''Unable to parse student goal.''),
           (''extracted_constraints'', JArr []),
           (''missing_information'', JArr [JStr ''Please restate your question clearly.'']),
           (''confidence_score'', JFloat 0.3)]"

text \<open>The \<^verbatim>\<open>if\<close> that sets \<^verbatim>\<open>decision_type\<close> from the lower-cased goal.\<close>

definition classify :: "string \<Rightarrow> string" where
  "classify goal_lower =
     (if any_in comparison_keywords goal_lower then ''comparison'' else ''direct_path'')"

text \<open>The \<^verbatim>\<open>try\<close> block around \<^verbatim>\<open>json.loads(response.content)\<close>.\<close>

definition parse_or_fallback :: "runtime \<Rightarrow> string \<Rightarrow> json" where
  "parse_or_fallback py response =
     (case json_loads py response of Some v \<Rightarrow> v | None \<Rightarrow> parse_fallback)"

definition domain_messages :: "string \<Rightarrow> message list" where
  "domain_messages active_input = [SystemMessage SYSTEM_PROMPT, HumanMessage active_input]"

text \<open>
  \<^verbatim>\<open>run_domain_reasoning\<close>. The statements of the source that can raise are, in order:
  \<^verbatim>\<open>parsed.get("interpreted_goal", "").lower()\<close> and
  \<^verbatim>\<open>float(parsed.get("confidence_score", 0.5))\<close>. When the first has passed,
  \<^verbatim>\<open>parsed.get("interpreted_goal")\<close> is a \<^verbatim>\<open>str\<close> or, the key being absent,
  \<^verbatim>\<open>None\<close>. Console output is not modelled.
\<close>

definition run_domain_reasoning :: "runtime \<Rightarrow> backend \<Rightarrow> AssistantState \<Rightarrow> AssistantState outcome" where
  "run_domain_reasoning py llm state =
     (let active_input = user_input state;
          messages = domain_messages active_input;
          response = llm messages;
          parsed = parse_or_fallback py response
      in ([messages],
          and_then (dict_get parsed ''interpreted_goal'' (JStr [])) (\<lambda>goal_value.
          and_then (py_lower py goal_value) (\<lambda>goal_lower.
          let kind = classify goal_lower;
              explicit_constraints = extract_explicit_constraints py active_input
          in
          and_then (dict_get parsed ''confidence_score'' (JFloat 0.5)) (\<lambda>confidence_value.
          and_then (py_float py confidence_value) (\<lambda>original_confidence.
          let adjusted_confidence =
                adjust_confidence_for_comparison py original_confidence kind active_input
          in
          and_then (dict_get parsed ''interpreted_goal'' JNull) (\<lambda>stored_goal.
          and_then (dict_get parsed ''missing_information'' (JArr [])) (\<lambda>missing.
          Inr (state\<lparr>interpreted_goal := str_field stored_goal,
                     extracted_constraints := Some explicit_constraints,
                     missing_information := optional missing,
                     confidence_score := Some adjusted_confidence,
                     decision_type := Some kind\<rparr>)))))))))"

section \<open>Recommendation (\<^verbatim>\<open>agents/recommendation.py\<close>)\<close>

definition COMPARISON_SYSTEM_PROMPT :: string where
  "COMPARISON_SYSTEM_PROMPT =
     ''You are a structured decision-support engine.\<newline>''
   @ ''\<newline>''
   @ ''When a student compares two or more career paths, you do NOT choose one.\<newline>''
   @ ''You design a 2-week structured exploration experiment.\<newline>''
   @ ''\<newline>''
   @ ''STRICT RULES:\<newline>''
   @ ''- Return ONLY valid JSON.\<newline>''
   @ ''- No explanations.\<newline>''
   @ ''- No markdown.\<newline>''
   @ ''- No emojis.\<newline>''
   @ ''- No prose outside JSON.\<newline>''
   @ ''- exploration_plan must contain exactly two items (Week 1 and Week 2).\<newline>''
   @ ''\<newline>''
   @ ''Return a JSON object with exactly these keys:\<newline>''
   @ ''  - strategy              : string (must be \"exploration_experiment\")\<newline>''
   @ ''  - exploration_plan      : list of 2 dicts with keys {week, focus, task}\<newline>''
   @ ''  - decision_criteria     : list of 3 reflective evaluation questions\<newline>''
   @ ''  - final_suggestion      : short decision guidance sentence\<newline>''
   @ ''  - resources             : list of 2'' @ en_dash @ ''4 learning resources\<newline>''"

definition DIRECT_PATH_SYSTEM_PROMPT :: string where
  "DIRECT_PATH_SYSTEM_PROMPT =
     ''You are a career recommendation engine for a Student Planning Assistant.\<newline>''
   @ ''\<newline>''
   @ ''You receive a structured interpretation of a student's goal and constraints.\<newline>''
   @ ''Return a JSON object with exactly these keys:\<newline>''
   @ ''  - primary_path        : string '' @ em_dash @ '' the most suitable career direction given the context\<newline>''
   @ ''  - secondary_path      : string '' @ em_dash @ '' a viable alternative\<newline>''
   @ ''  - reasoning           : string '' @ em_dash @ '' 2'' @ en_dash @ ''3 sentences explaining why primary_path fits best\<newline>''
   @ ''  - immediate_next_steps: list of strings '' @ em_dash @ '' 3 concrete actions the student can take this week\<newline>''
   @ ''  - resources           : list of strings '' @ em_dash @ '' 2'' @ en_dash @ ''3 specific learning resources or links\<newline>''
   @ ''\<newline>''
   @ ''Return ONLY valid JSON. No prose. No markdown fences.\<newline>''"

definition comparison_fallback :: "string \<Rightarrow> json" where
  "comparison_fallback goal =
     JObj [(''strategy'', JStr ''exploration_experiment''),
           (''exploration_plan'',
              JArr [JObj [(''week'', JInt 1),
                          (''focus'', JStr ''Backend Development''),
                          (''task'', JStr ''Build a small REST API using FastAPI with authentication and database integration.'')],
                    JObj [(''week'', JInt 2),
                          (''focus'', JStr ''Machine Learning''),
                          (''task'', JStr ''Build a small end-to-end ML classification project and expose it via a simple API.'')]]),
           (''decision_criteria'',
              JArr [JStr ''Which work felt more engaging?'',
                    JStr ''Which learning curve felt sustainable?'',
                    JStr ''Which type of problem-solving excited you more?'']),
           (''final_suggestion'',
              JStr ''Choose the path that maintains your long-term curiosity after hands-on exploration.''),
           (''resources'',
              JArr [JStr ''FastAPI official documentation'',
                    JStr ''Scikit-learn documentation'',
                    JStr ''Andrew Ng Machine Learning Course''])]"

definition required_keys :: "string list" where
  "required_keys =
     [''strategy'', ''exploration_plan'', ''decision_criteria'', ''final_suggestion'', ''resources'']"

text \<open>\<^verbatim>\<open>isinstance(v, dict)\<close> and \<^verbatim>\<open>v.keys()\<close>.\<close>

fun is_dict :: "json \<Rightarrow> bool" where
  "is_dict (JObj items) = True"
| "is_dict _ = False"

fun dict_keys :: "json \<Rightarrow> string list" where
  "dict_keys (JObj items) = map fst items"
| "dict_keys _ = []"

text \<open>
  The two lines \<^verbatim>\<open>', '.join(xs) if xs else '...'\<close> of each context block. The
  constraints are a list of strings; the missing information is whatever the state holds.
\<close>

definition constraints_text :: "string list \<Rightarrow> string" where
  "constraints_text constraints =
     (if constraints \<noteq> [] then join '', '' constraints else ''none stated'')"

definition missing_text :: "runtime \<Rightarrow> json \<Rightarrow> error + string" where
  "missing_text py missing = (if truthy missing then py_join py '', '' missing else Inr ''none'')"

text \<open>The messages of the comparison arm: the system prompt and the context block.\<close>

definition comparison_messages :: "string \<Rightarrow> string list \<Rightarrow> string \<Rightarrow> message list" where
  "comparison_messages goal constraints missing_line =
     (let context_block =
            ''Student goal: '' @ goal @ ''\<newline>''
            @ ''Explicit constraints: '' @ constraints_text constraints @ ''\<newline>''
            @ ''Missing information: '' @ missing_line
      in [SystemMessage COMPARISON_SYSTEM_PROMPT, HumanMessage context_block])"

text \<open>
  \<^verbatim>\<open>_generate_comparison_recommendation\<close>: building the context block can raise, before
  the backend is called; after the call every failed check returns the fallback.
\<close>

definition generate_comparison_recommendation ::
  "runtime \<Rightarrow> backend \<Rightarrow> string \<Rightarrow> string list \<Rightarrow> json \<Rightarrow> json outcome" where
  "generate_comparison_recommendation py llm goal constraints missing =
     (case missing_text py missing of
        Inl e \<Rightarrow> ([], Inl e)
      | Inr missing_line \<Rightarrow>
          let messages = comparison_messages goal constraints missing_line;
              response = llm messages
          in ([messages],
              case json_loads py response of
                None \<Rightarrow> Inr (comparison_fallback goal)
              | Some parsed \<Rightarrow>
                  if \<not> is_dict parsed then Inr (comparison_fallback goal)
                  else if \<not> list_all (\<lambda>k. k \<in> set (dict_keys parsed)) required_keys
                    then Inr (comparison_fallback goal)
                  else and_then (dict_get parsed ''exploration_plan'' JNull) (\<lambda>plan.
                    if \<not> truthy plan then Inr (comparison_fallback goal)
                    else Inr parsed)))"

definition direct_fallback :: json where
  "direct_fallback =
     JObj [(''primary_path'', JStr ''Unable to parse recommendations.''),
           (''secondary_path'', JStr ''N/A''),
           (''reasoning'', JStr ''LLM returned unexpected format.''),
           (''immediate_next_steps'', JArr []),
           (''resources'', JArr [])]"

text \<open>The messages of the direct-path arm.\<close>

definition direct_messages :: "string \<Rightarrow> string list \<Rightarrow> string \<Rightarrow> message list" where
  "direct_messages goal constraints missing_line =
     (let context_block =
            ''Student goal: '' @ goal @ ''\<newline>''
            @ ''Constraints / preferences: '' @ constraints_text constraints @ ''\<newline>''
            @ ''Note '' @ em_dash @ '' information not available: '' @ missing_line
      in [SystemMessage DIRECT_PATH_SYSTEM_PROMPT, HumanMessage context_block])"

definition generate_direct_recommendation ::
  "runtime \<Rightarrow> backend \<Rightarrow> string \<Rightarrow> string list \<Rightarrow> json \<Rightarrow> json outcome" where
  "generate_direct_recommendation py llm goal constraints missing =
     (case missing_text py missing of
        Inl e \<Rightarrow> ([], Inl e)
      | Inr missing_line \<Rightarrow>
          let messages = direct_messages goal constraints missing_line;
              response = llm messages
          in ([messages],
              case json_loads py response of
                None \<Rightarrow> Inr direct_fallback
              | Some parsed \<Rightarrow> Inr parsed))"

text \<open>
  The test of \<^verbatim>\<open>run_recommendation\<close>:
  \<^verbatim>\<open>decision_type = state.decision_type or "direct_path"\<close>, then
  \<^verbatim>\<open>if decision_type == "comparison"\<close>.
\<close>

definition recommendation_branch :: "AssistantState \<Rightarrow> branch" where
  "recommendation_branch state =
     (let kind = or_list (decision_type state) ''direct_path''
      in if kind = ''comparison'' then Comparison else DirectPath)"

text \<open>
  \<^verbatim>\<open>run_recommendation\<close>. On the direct path the log line evaluates
  \<^verbatim>\<open>recommendations.get('primary_path')\<close> before the state is copied, which raises
  on a value that is not a dict.
\<close>

definition run_recommendation :: "runtime \<Rightarrow> backend \<Rightarrow> AssistantState \<Rightarrow> AssistantState outcome" where
  "run_recommendation py llm state =
     (let goal = or_list (interpreted_goal state) (user_input state);
          constraints = or_list (extracted_constraints state) [];
          missing = or_else (missing_information state) (JArr [])
      in if recommendation_branch state = Comparison then
           (case generate_comparison_recommendation py llm goal constraints missing of
              (calls, r) \<Rightarrow>
                (calls, and_then r (\<lambda>recs. Inr (state\<lparr>recommendations := optional recs\<rparr>))))
         else
           (case generate_direct_recommendation py llm goal constraints missing of
              (calls, r) \<Rightarrow>
                (calls, and_then r (\<lambda>recs.
                          and_then (dict_get recs ''primary_path'' JNull) (\<lambda>logged.
                          Inr (state\<lparr>recommendations := optional recs\<rparr>))))))"

section \<open>Coordinator (\<^verbatim>\<open>agents/coordinator.py\<close>)\<close>

text \<open>\<^verbatim>\<open>len(v)\<close>, \<^verbatim>\<open>v[i]\<close> for an index \<open>i \<ge> 0\<close>, and \<^verbatim>\<open>v[:3]\<close> as a list of items.\<close>

definition py_len :: "runtime \<Rightarrow> json \<Rightarrow> error + nat" where
  "py_len py v =
     (case v of
        JArr xs \<Rightarrow> Inr (length xs)
      | JStr s \<Rightarrow> Inr (length (str_items py s))
      | JObj items \<Rightarrow> Inr (length items)
      | _ \<Rightarrow> Inl TypeError)"

definition py_index :: "runtime \<Rightarrow> json \<Rightarrow> nat \<Rightarrow> error + json" where
  "py_index py v i =
     (case v of
        JArr xs \<Rightarrow> if i < length xs then Inr (xs ! i) else Inl IndexError
      | JStr s \<Rightarrow> if i < length (str_items py s) then Inr (JStr (str_items py s ! i))
                  else Inl IndexError
      | JObj items \<Rightarrow> Inl KeyError
      | _ \<Rightarrow> Inl TypeError)"

text \<open>
  A dict has string keys, so \<^verbatim>\<open>v[0]\<close> on it is a \<^verbatim>\<open>KeyError\<close>; \<^verbatim>\<open>v[:3]\<close> on it
  is a \<^verbatim>\<open>TypeError\<close> (a \<^verbatim>\<open>KeyError\<close> from Python 3.12 on, where a slice is hashable).
\<close>

definition first_three :: "runtime \<Rightarrow> json \<Rightarrow> error + json list" where
  "first_three py v =
     (case v of
        JArr xs \<Rightarrow> Inr (take 3 xs)
      | JStr s \<Rightarrow> Inr (map JStr (take 3 (str_items py s)))
      | _ \<Rightarrow> Inl TypeError)"

text \<open>The two week blocks, appended when \<^verbatim>\<open>len(plan) >= 2\<close>.\<close>

definition week_blocks :: "runtime \<Rightarrow> json \<Rightarrow> error + string" where
  "week_blocks py plan =
     and_then (py_index py plan 0) (\<lambda>entry0.
     and_then (dict_get entry0 ''focus'' (JStr ''Option A'')) (\<lambda>focus0.
     and_then (dict_get entry0 ''task'' (JStr ''Explore this path'')) (\<lambda>task0.
     and_then (py_index py plan 1) (\<lambda>entry1.
     and_then (dict_get entry1 ''focus'' (JStr ''Option B'')) (\<lambda>focus1.
     and_then (dict_get entry1 ''task'' (JStr ''Explore this path'')) (\<lambda>task1.
     Inr (''**Week 1 '' @ em_dash @ '' '' @ fmt py focus0 @ ''**\<newline>''
          @ ''- '' @ fmt py task0 @ ''\<newline>\<newline>''
          @ ''**Week 2 '' @ em_dash @ '' '' @ fmt py focus1 @ ''**\<newline>''
          @ ''- '' @ fmt py task1 @ ''\<newline>\<newline>'')))))))"

definition intro :: string where
  "intro =
     ''This is a comparison decision. Instead of prematurely selecting one path, ''
     @ ''I recommend a structured two-week exploration plan:\<newline>\<newline>''"

text \<open>The comparison arm of \<^verbatim>\<open>compile_response\<close>: the text \<^verbatim>\<open>final\<close>, built from \<^verbatim>\<open>recs\<close> alone.\<close>

definition comparison_text :: "runtime \<Rightarrow> json \<Rightarrow> error + string" where
  "comparison_text py recs =
     and_then (dict_get recs ''exploration_plan'' (JArr [])) (\<lambda>plan.
     and_then (dict_get recs ''decision_criteria'' (JArr [])) (\<lambda>criteria.
     and_then (dict_get recs ''final_suggestion'' (JStr [])) (\<lambda>suggestion.
     and_then (py_len py plan) (\<lambda>n.
     and_then (if n \<ge> 2 then week_blocks py plan else Inr []) (\<lambda>weeks.
     and_then (first_three py criteria) (\<lambda>shown.
     let final1 = intro @ weeks;
         final2 = final1 @ ''After completing both phases, reflect on:\<newline>'';
         final3 = foldl (\<lambda>final criterion. final @ ''- '' @ fmt py criterion @ ''\<newline>'')
                    final2 shown;
         final4 = (if truthy suggestion then final3 @ ''\<newline>'' @ fmt py suggestion
                   else final3)
     in Inr final4))))))"

text \<open>The direct-path arm: the prompt sent to the backend.\<close>

definition direct_prompt :: "runtime \<Rightarrow> string \<Rightarrow> json \<Rightarrow> string" where
  "direct_prompt py goal recs =
     ''You are a friendly student career advisor.\<newline>''
     @ ''The student's goal: '' @ goal @ ''\<newline>''
     @ ''Structured recommendations:\<newline>'' @ fmt py recs @ ''\<newline>\<newline>''
     @ ''Write a clear, encouraging, 3'' @ en_dash @ ''5 sentence response that summarizes ''
     @ ''the top recommendation and one concrete next step. ''
     @ ''Address the student directly.''"

definition coordinator_messages :: "runtime \<Rightarrow> string \<Rightarrow> json \<Rightarrow> message list" where
  "coordinator_messages py goal recs =
     [SystemMessage ''You are a helpful student planning assistant.'',
      HumanMessage (direct_prompt py goal recs)]"

text \<open>
  The test of \<^verbatim>\<open>compile_response\<close>, written in the source with the same two lines as
  the one of \<^verbatim>\<open>run_recommendation\<close>.
\<close>

definition coordinator_branch :: "AssistantState \<Rightarrow> branch" where
  "coordinator_branch state =
     (let kind = or_list (decision_type state) ''direct_path''
      in if kind = ''comparison'' then Comparison else DirectPath)"

definition compile_response :: "runtime \<Rightarrow> backend \<Rightarrow> AssistantState \<Rightarrow> AssistantState outcome" where
  "compile_response py llm state =
     (let recs = or_else (recommendations state) (JObj []);
          goal = or_list (interpreted_goal state) (user_input state)
      in if coordinator_branch state = Comparison then
           ([], and_then (comparison_text py recs) (\<lambda>response_text.
                Inr (state\<lparr>final_response := Some response_text\<rparr>)))
         else
           (let messages = coordinator_messages py goal recs;
                response = llm messages;
                response_text = str_strip py response
            in ([messages], Inr (state\<lparr>final_response := Some response_text\<rparr>))))"

section \<open>A runtime and backends for concrete runs\<close>

text \<open>
  A runtime that agrees with Python on the inputs of the concrete runs below: ASCII text
  without surrounding white space, confidence scores given as floats, and only strings
  formatted into text. \<^verbatim>\<open>json.loads\<close> is given with the run.
\<close>

definition ascii_lower_char :: "char \<Rightarrow> char" where
  "ascii_lower_char c =
     (case map_of (zip ''ABCDEFGHIJKLMNOPQRSTUVWXYZ'' ''abcdefghijklmnopqrstuvwxyz'') c of
        Some l \<Rightarrow> l
      | None \<Rightarrow> c)"

definition ascii_lower :: "string \<Rightarrow> string" where
  "ascii_lower s = map ascii_lower_char s"

definition ascii_runtime :: "(string \<Rightarrow> json option) \<Rightarrow> runtime" where
  "ascii_runtime loads =
     \<lparr> json_loads = loads,
       str_lower = ascii_lower,
       str_strip = (\<lambda>s. s),
       str_items = map (\<lambda>c. [c]),
       to_str = (\<lambda>v. ''?''),
       float_of_int = (\<lambda>n. Inr (of_int n)),
       float_of_str = (\<lambda>s. Inl ValueError) \<rparr>"

text \<open>A backend that answers every call with the same text.\<close>

definition always :: "string \<Rightarrow> backend" where
  "always text messages = text"

text \<open>
  \<^verbatim>\<open>json.loads\<close> for a run: it fails on every text, or it knows the one text that the
  backend of the run answers with.
\<close>

definition not_json :: "string \<Rightarrow> json option" where
  "not_json text = None"

definition parses :: "string \<Rightarrow> json \<Rightarrow> string \<Rightarrow> json option" where
  "parses known v text = (if text = known then Some v else None)"

text \<open>The queries and backend answers of the concrete runs.\<close>

definition query_ml :: string where
  "query_ml = ''Should I do ML or backend development?''"

definition query_beginner :: string where
  "query_beginner = ''I'm a beginner and I have limited time''"

definition goal_answer_text :: string where
  "goal_answer_text =
     ''{\"interpreted_goal\": \"choosing between ML and backend\", ''
     @ ''\"extracted_constraints\": [\"prefers remote work\"], ''
     @ ''\"missing_information\": [\"current year of study\"], ''
     @ ''\"confidence_score\": 0.95}''"

definition goal_answer :: json where
  "goal_answer =
     JObj [(''interpreted_goal'', JStr ''choosing between ML and backend''),
           (''extracted_constraints'', JArr [JStr ''prefers remote work'']),
           (''missing_information'', JArr [JStr ''current year of study'']),
           (''confidence_score'', JFloat 0.95)]"

definition which_answer_text :: string where
  "which_answer_text =
     ''{\"interpreted_goal\": \"Decide which is better: ML vs backend\", ''
     @ ''\"extracted_constraints\": [], ''
     @ ''\"missing_information\": [\"current year of study\"], ''
     @ ''\"confidence_score\": 0.95}''"

definition which_answer_items :: "(string \<times> json) list" where
  "which_answer_items =
     [(''interpreted_goal'', JStr ''Decide which is better: ML vs backend''),
      (''extracted_constraints'', JArr []),
      (''missing_information'', JArr [JStr ''current year of study'']),
      (''confidence_score'', JFloat 0.95)]"

text \<open>
  States as Domain Reasoning leaves them: a comparison and a direct-path question.
\<close>

definition comparison_state :: AssistantState where
  "comparison_state =
     (initial_state query_ml)
       \<lparr>interpreted_goal := Some ''Decide which is better: ML vs backend'',
        extracted_constraints := Some [],
        missing_information := Some (JArr [JStr ''current year of study'']),
        confidence_score := Some 0.67,
        decision_type := Some ''comparison''\<rparr>"

definition direct_state :: AssistantState where
  "direct_state =
     (initial_state query_beginner)
       \<lparr>interpreted_goal := Some ''learn programming from scratch'',
        extracted_constraints := Some [''time'', ''experience''],
        missing_information := Some (JArr []),
        confidence_score := Some 0.8,
        decision_type := Some ''direct_path''\<rparr>"

text \<open>
  Answers to the comparison prompt: one without \<open>resources\<close>, and two with all five
  keys, whose plan entries are names in the first and empty dicts in the second.
\<close>

definition partial_plan_text :: string where
  "partial_plan_text =
     ''{\"strategy\": \"exploration_experiment\", \"exploration_plan\": [], ''
     @ ''\"decision_criteria\": [], \"final_suggestion\": \"\"}''"

definition partial_plan :: json where
  "partial_plan =
     JObj [(''strategy'', JStr ''exploration_experiment''),
           (''exploration_plan'', JArr []),
           (''decision_criteria'', JArr []),
           (''final_suggestion'', JStr [])]"

definition names_plan_text :: string where
  "names_plan_text =
     ''{\"strategy\": \"exploration_experiment\", ''
     @ ''\"exploration_plan\": [\"Backend Development\", \"Machine Learning\"], ''
     @ ''\"decision_criteria\": [\"Which work felt more engaging?\"], ''
     @ ''\"final_suggestion\": \"Pick the one you enjoyed.\", ''
     @ ''\"resources\": [\"FastAPI official documentation\"]}''"

definition names_plan :: json where
  "names_plan =
     JObj [(''strategy'', JStr ''exploration_experiment''),
           (''exploration_plan'', JArr [JStr ''Backend Development'', JStr ''Machine Learning'']),
           (''decision_criteria'', JArr [JStr ''Which work felt more engaging?'']),
           (''final_suggestion'', JStr ''Pick the one you enjoyed.''),
           (''resources'', JArr [JStr ''FastAPI official documentation''])]"

definition bare_plan :: json where
  "bare_plan =
     JObj [(''strategy'', JStr ''exploration_experiment''),
           (''exploration_plan'', JArr [JObj [], JObj []]),
           (''decision_criteria'', JArr [JStr ''Which work felt more engaging?'']),
           (''final_suggestion'', JStr ''Pick the one you enjoyed.''),
           (''resources'', JArr [JStr ''FastAPI official documentation''])]"

text \<open>An answer with all five keys whose plan is a number.\<close>

definition number_plan_text :: string where
  "number_plan_text =
     ''{\"strategy\": \"exploration_experiment\", \"exploration_plan\": 7, ''
     @ ''\"decision_criteria\": [\"Which work felt more engaging?\"], ''
     @ ''\"final_suggestion\": \"Pick the one you enjoyed.\", ''
     @ ''\"resources\": [\"FastAPI official documentation\"]}''"

definition number_plan :: json where
  "number_plan =
     JObj [(''strategy'', JStr ''exploration_experiment''),
           (''exploration_plan'', JInt 7),
           (''decision_criteria'', JArr [JStr ''Which work felt more engaging?'']),
           (''final_suggestion'', JStr ''Pick the one you enjoyed.''),
           (''resources'', JArr [JStr ''FastAPI official documentation''])]"

text \<open>A plan as the comparison prompt asks for it, but with four criteria.\<close>

definition full_plan_text :: string where
  "full_plan_text =
     ''{\"strategy\": \"exploration_experiment\", ''
     @ ''\"exploration_plan\": [''
     @ ''{\"week\": 1, \"focus\": \"Backend Development\", \"task\": \"Build a REST API.\"}, ''
     @ ''{\"week\": 2, \"focus\": \"Machine Learning\", \"task\": \"Train a classifier.\"}], ''
     @ ''\"decision_criteria\": [\"Which work felt more engaging?\", ''
     @ ''\"Which learning curve felt sustainable?\", \"Which problems excited you more?\", ''
     @ ''\"Which path pays better?\"], ''
     @ ''\"final_suggestion\": \"Pick the one you enjoyed.\", ''
     @ ''\"resources\": [\"FastAPI official documentation\"]}''"

definition full_plan_items :: "(string \<times> json) list" where
  "full_plan_items =
     [(''strategy'', JStr ''exploration_experiment''),
      (''exploration_plan'',
         JArr [JObj [(''week'', JInt 1), (''focus'', JStr ''Backend Development''),
                     (''task'', JStr ''Build a REST API.'')],
               JObj [(''week'', JInt 2), (''focus'', JStr ''Machine Learning''),
                     (''task'', JStr ''Train a classifier.'')]]),
      (''decision_criteria'',
         JArr [JStr ''Which work felt more engaging?'',
               JStr ''Which learning curve felt sustainable?'',
               JStr ''Which problems excited you more?'',
               JStr ''Which path pays better?'']),
      (''final_suggestion'', JStr ''Pick the one you enjoyed.''),
      (''resources'', JArr [JStr ''FastAPI official documentation''])]"

text \<open>Answers to the direct-path prompt: a JSON array, a JSON string and a dict.\<close>

definition steps_text :: string where
  "steps_text = ''[\"Learn Python\", \"Build a portfolio\"]''"

definition steps_array :: json where
  "steps_array = JArr [JStr ''Learn Python'', JStr ''Build a portfolio'']"

definition name_text :: string where
  "name_text = ''\"Data Science\"''"

definition path_only_text :: string where
  "path_only_text = ''{\"primary_path\": \"Web development\"}''"

definition path_only_items :: "(string \<times> json) list" where
  "path_only_items = [(''primary_path'', JStr ''Web development'')]"

section \<open>Basic facts\<close>

lemma and_then_Inr [simp]: "and_then (Inr v) f = f v"
  by (simp add: and_then_def)

lemma and_then_Inl [simp]: "and_then (Inl e) f = Inl e"
  by (simp add: and_then_def)

lemma and_then_eq_Inr: "and_then r f = Inr y \<longleftrightarrow> (\<exists>v. r = Inr v \<and> f v = Inr y)"
  by (cases r) simp_all

lemma dict_get_JObj [simp]: "dict_get (JObj items) key dflt = Inr (get_or items key dflt)"
  by (simp add: dict_get_def)

lemma dict_get_eq_Inr:
  "dict_get d key dflt = Inr v \<longleftrightarrow> (\<exists>items. d = JObj items \<and> v = get_or items key dflt)"
  by (cases d) (auto simp: dict_get_def)

lemma py_lower_eq_Inr: "py_lower py v = Inr t \<longleftrightarrow> (\<exists>g. v = JStr g \<and> t = str_lower py g)"
  by (cases v) (auto simp: py_lower_def)

text \<open>\<open>contains\<close> is the contiguous-sublist relation of the list library.\<close>

lemma contains_sublist: "contains kw s \<longleftrightarrow> sublist kw s"
  by (induction s) (simp_all add: sublist_Cons_right)

lemma any_in_sublist: "any_in keywords text \<longleftrightarrow> (\<exists>kw \<in> set keywords. sublist kw text)"
  by (simp add: any_in_def list_ex_iff contains_sublist)

lemma scan_categories_filter:
  "scan_categories u cats found =
     found @ map fst (filter (\<lambda>(category, keywords). any_in keywords u) cats)"
  by (induction u cats found rule: scan_categories.induct) simp_all

lemma distinct_keys: "distinct (map fst explicit_keywords)"
  by (simp add: explicit_keywords_def)

lemma distinct_categories: "distinct (extract_explicit_constraints py u)"
  unfolding extract_explicit_constraints_def Let_def scan_categories_filter
  using distinct_keys by (simp add: distinct_map_filter)

lemma set_categories:
  "set (extract_explicit_constraints py u) =
     {category. \<exists>keywords. (category, keywords) \<in> set explicit_keywords \<and>
         (\<exists>kw \<in> set keywords. sublist kw (str_lower py u))}"
  unfolding extract_explicit_constraints_def Let_def scan_categories_filter
  by (force simp: any_in_sublist)

lemma classify_sublist:
  "classify t =
     (if \<exists>k \<in> {'' or '', ''vs'', ''which'', ''better'', ''compare''}. sublist k t
      then ''comparison'' else ''direct_path'')"
  by (simp add: classify_def any_in_sublist comparison_keywords_def)

lemma adjust_confidence_cases:
  "adjust_confidence_for_comparison py c kind u =
     (if kind = ''comparison'' \<and> \<not> (\<exists>kw \<in> set context_keywords. sublist kw (str_lower py u))
      then min c 0.67 else c)"
  by (simp add: adjust_confidence_for_comparison_def has_background_context_def Let_def
        any_in_sublist)

section \<open>Domain Reasoning: what a run returns\<close>

lemma run_domain_reasoning_calls:
  "fst (run_domain_reasoning py llm s) = [domain_messages (user_input s)]"
  by (simp add: run_domain_reasoning_def Let_def)

lemma run_domain_reasoning_returns:
  assumes "parse_or_fallback py (llm (domain_messages (user_input s))) = JObj items"
    and "get_or items ''interpreted_goal'' (JStr []) = JStr g"
    and "py_float py (get_or items ''confidence_score'' (JFloat 0.5)) = Inr c"
  shows "snd (run_domain_reasoning py llm s) =
      Inr (s\<lparr>interpreted_goal := str_field (get_or items ''interpreted_goal'' JNull),
             extracted_constraints := Some (extract_explicit_constraints py (user_input s)),
             missing_information := optional (get_or items ''missing_information'' (JArr [])),
             confidence_score :=
               Some (adjust_confidence_for_comparison py c (classify (str_lower py g))
                       (user_input s)),
             decision_type := Some (classify (str_lower py g))\<rparr>)"
  using assms by (simp add: run_domain_reasoning_def Let_def py_lower_def)

lemma run_domain_reasoning_Inr:
  assumes "snd (run_domain_reasoning py llm s) = Inr s'"
  shows "\<exists>items g c.
      parse_or_fallback py (llm (domain_messages (user_input s))) = JObj items \<and>
      get_or items ''interpreted_goal'' (JStr []) = JStr g \<and>
      py_float py (get_or items ''confidence_score'' (JFloat 0.5)) = Inr c \<and>
      s' = s\<lparr>interpreted_goal := str_field (get_or items ''interpreted_goal'' JNull),
              extracted_constraints := Some (extract_explicit_constraints py (user_input s)),
              missing_information := optional (get_or items ''missing_information'' (JArr [])),
              confidence_score :=
                Some (adjust_confidence_for_comparison py c (classify (str_lower py g))
                        (user_input s)),
              decision_type := Some (classify (str_lower py g))\<rparr>"
proof -
  let ?parsed = "parse_or_fallback py (llm (domain_messages (user_input s)))"
  from assms obtain goal_value where
      "dict_get ?parsed ''interpreted_goal'' (JStr []) = Inr goal_value"
    by (auto simp: run_domain_reasoning_def Let_def and_then_eq_Inr)
  then obtain items where items: "?parsed = JObj items"
    by (auto simp: dict_get_eq_Inr)
  from assms items obtain g where
      g: "get_or items ''interpreted_goal'' (JStr []) = JStr g"
    by (auto simp: run_domain_reasoning_def Let_def and_then_eq_Inr py_lower_eq_Inr)
  from assms items g obtain c where
      c: "py_float py (get_or items ''confidence_score'' (JFloat 0.5)) = Inr c"
    by (auto simp: run_domain_reasoning_def Let_def and_then_eq_Inr py_lower_def)
  from run_domain_reasoning_returns [of py llm s items g c, OF items g c] assms items g c
  show ?thesis
    by auto
qed

section \<open>Domain Reasoning: the decision type\<close>

text \<open>
  Claim C2. Let \<open>g\<close> be the interpreted goal of the parsed answer (of the fallback dict
  when the answer is not JSON; the empty string when the key is absent), and let the
  reported confidence convert to a float. Then \<open>run_domain_reasoning\<close> returns a state,
  and its \<open>decision_type\<close> is \<open>comparison\<close> if the lower-cased \<open>g\<close> contains one of
  \<open>" or "\<close>, \<open>"vs"\<close>, \<open>"which"\<close>, \<open>"better"\<close>, \<open>"compare"\<close> as a substring and
  \<open>direct_path\<close> otherwise. The right-hand side does not mention \<open>user_input\<close>: only
  the interpreted goal is scanned.
\<close>

theorem decision_type_scans_interpreted_goal:
  assumes "parse_or_fallback py (llm (domain_messages (user_input s))) = JObj items"
    and "get_or items ''interpreted_goal'' (JStr []) = JStr g"
    and "py_float py (get_or items ''confidence_score'' (JFloat 0.5)) = Inr c"
  shows "\<exists>s'. snd (run_domain_reasoning py llm s) = Inr s' \<and>
           decision_type s' =
             Some (if \<exists>k \<in> {'' or '', ''vs'', ''which'', ''better'', ''compare''}.
                        sublist k (str_lower py g)
                   then ''comparison'' else ''direct_path'')"
  using run_domain_reasoning_returns [of py llm s items g c, OF assms]
  by (simp add: classify_sublist)

theorem decision_type_scans_interpreted_goal_witness:
  "parse_or_fallback (ascii_runtime (parses which_answer_text (JObj which_answer_items)))
       (always which_answer_text (domain_messages (user_input (initial_state query_ml))))
     = JObj which_answer_items
   \<and> get_or which_answer_items ''interpreted_goal'' (JStr [])
     = JStr ''Decide which is better: ML vs backend''
   \<and> py_float (ascii_runtime (parses which_answer_text (JObj which_answer_items)))
       (get_or which_answer_items ''confidence_score'' (JFloat 0.5)) = Inr 0.95
   \<and> map_sum id decision_type
       (snd (run_domain_reasoning
               (ascii_runtime (parses which_answer_text (JObj which_answer_items)))
               (always which_answer_text) (initial_state query_ml)))
     = Inr (Some ''comparison'')"
proof -
  let ?py = "ascii_runtime (parses which_answer_text (JObj which_answer_items))"
  let ?g = "''Decide which is better: ML vs backend''"
  have parsed: "parse_or_fallback ?py
       (always which_answer_text (domain_messages (user_input (initial_state query_ml))))
     = JObj which_answer_items"
    by (simp add: parse_or_fallback_def ascii_runtime_def parses_def always_def)
  have goal: "get_or which_answer_items ''interpreted_goal'' (JStr []) = JStr ?g"
    by (simp add: get_or_def which_answer_items_def)
  have conf: "py_float ?py (get_or which_answer_items ''confidence_score'' (JFloat 0.5)) = Inr 0.95"
    by (simp add: get_or_def which_answer_items_def py_float_def)
  have "sublist ''which'' (str_lower ?py ?g)"
    unfolding contains_sublist [symmetric] by code_simp
  with decision_type_scans_interpreted_goal
         [of ?py "always which_answer_text" "initial_state query_ml" which_answer_items ?g "0.95",
          OF parsed goal conf]
  have "map_sum id decision_type
       (snd (run_domain_reasoning ?py (always which_answer_text) (initial_state query_ml)))
     = Inr (Some ''comparison'')"
    by auto
  with parsed goal conf show ?thesis
    by blast
qed


text \<open>
  Claim C3, as stated, fails. For the query \<open>"Should I do ML or backend development?"\<close>
  and a backend answering with the interpreted goal
  \<open>"choosing between ML and backend"\<close>, the stage returns with \<open>decision_type\<close>
  \<open>direct_path\<close>, not \<open>comparison\<close>: the \<open>" or "\<close> is in the query, which is not
  scanned, and the interpreted goal has "and" in its place.
\<close>

theorem ml_and_backend_goal_counterexample:
  "map_sum id decision_type
     (snd (run_domain_reasoning (ascii_runtime (parses goal_answer_text goal_answer))
             (always goal_answer_text) (initial_state query_ml)))
     = Inr (Some ''direct_path'')
   \<and> map_sum id decision_type
     (snd (run_domain_reasoning (ascii_runtime (parses goal_answer_text goal_answer))
             (always goal_answer_text) (initial_state query_ml)))
     \<noteq> Inr (Some ''comparison'')"
  by code_simp

text \<open>
  Claim C3, amended. For that query and any parsed answer whose interpreted goal is
  \<open>"choosing between ML and backend"\<close> and whose confidence converts to a float,
  \<open>run_domain_reasoning\<close> returns a state with \<open>decision_type\<close> \<open>direct_path\<close>,
  whatever the other keys of the answer are.
\<close>

theorem ml_and_backend_goal_is_direct_path:
  assumes "user_input s = ''Should I do ML or backend development?''"
    and "json_loads py (llm (domain_messages (user_input s))) = Some (JObj items)"
    and "map_of items ''interpreted_goal'' = Some (JStr ''choosing between ML and backend'')"
    and "str_lower py ''choosing between ML and backend'' = ''choosing between ml and backend''"
    and "py_float py (get_or items ''confidence_score'' (JFloat 0.5)) = Inr c"
  shows "\<exists>s'. snd (run_domain_reasoning py llm s) = Inr s' \<and>
           decision_type s' = Some ''direct_path''"
proof -
  have parsed: "parse_or_fallback py (llm (domain_messages (user_input s))) = JObj items"
    using assms(2) by (simp add: parse_or_fallback_def)
  have goal: "get_or items ''interpreted_goal'' (JStr [])
                = JStr ''choosing between ML and backend''"
    using assms(3) by (simp add: get_or_def)
  have "classify ''choosing between ml and backend'' = ''direct_path''"
    by code_simp
  with run_domain_reasoning_returns
         [of py llm s items "''choosing between ML and backend''" c, OF parsed goal assms(5)]
       assms(4)
  show ?thesis
    by simp
qed

theorem ml_and_backend_goal_is_direct_path_witness:
  "user_input (initial_state query_ml) = ''Should I do ML or backend development?''
   \<and> json_loads (ascii_runtime (parses goal_answer_text goal_answer))
        (always goal_answer_text (domain_messages (user_input (initial_state query_ml))))
      = Some goal_answer
   \<and> ascii_lower ''choosing between ML and backend'' = ''choosing between ml and backend''
   \<and> (\<exists>s'. snd (run_domain_reasoning (ascii_runtime (parses goal_answer_text goal_answer))
                     (always goal_answer_text) (initial_state query_ml)) = Inr s'
            \<and> decision_type s' = Some ''direct_path'')"
proof -
  let ?py = "ascii_runtime (parses goal_answer_text goal_answer)"
  let ?items = "[(''interpreted_goal'', JStr ''choosing between ML and backend''),
           (''extracted_constraints'', JArr [JStr ''prefers remote work'']),
           (''missing_information'', JArr [JStr ''current year of study'']),
           (''confidence_score'', JFloat 0.95)]"
  have query: "user_input (initial_state query_ml) = ''Should I do ML or backend development?''"
    by (simp add: initial_state_def query_ml_def)
  have loads: "json_loads ?py
        (always goal_answer_text (domain_messages (user_input (initial_state query_ml))))
      = Some (JObj ?items)"
    by (simp add: ascii_runtime_def parses_def always_def goal_answer_def)
  have goal: "map_of ?items ''interpreted_goal'' = Some (JStr ''choosing between ML and backend'')"
    by simp
  have lower: "str_lower ?py ''choosing between ML and backend''
                 = ''choosing between ml and backend''"
    by code_simp
  have conf: "py_float ?py (get_or ?items ''confidence_score'' (JFloat 0.5)) = Inr 0.95"
    by (simp add: get_or_def py_float_def)
  from ml_and_backend_goal_is_direct_path
         [of "initial_state query_ml" ?py "always goal_answer_text" ?items "0.95",
          OF query loads goal lower conf]
       query loads lower
  show ?thesis
    by (simp add: goal_answer_def ascii_runtime_def)
qed

section \<open>Domain Reasoning: the confidence score\<close>

text \<open>
  Claim C4. \<open>adjust_confidence_for_comparison\<close> returns \<open>min c 0.67\<close> when the
  decision type is \<open>comparison\<close> and the lower-cased \<open>user_input\<close> contains none of
  the background-context keywords, and \<open>c\<close> itself in every other case (decision type
  \<open>direct_path\<close>, or a keyword present); so \<open>0.95\<close> without context keywords gives
  \<open>0.67\<close>. When the reported confidence converts to the float \<open>c\<close>,
  \<open>run_domain_reasoning\<close> returns a state whose \<open>confidence_score\<close> is that adjusted
  value, for the decision type it stores.
\<close>

theorem confidence_capped_without_context:
  assumes "parse_or_fallback py (llm (domain_messages (user_input s))) = JObj items"
    and "get_or items ''interpreted_goal'' (JStr []) = JStr g"
    and "py_float py (get_or items ''confidence_score'' (JFloat 0.5)) = Inr c"
  shows "(\<exists>s'. snd (run_domain_reasoning py llm s) = Inr s' \<and>
            confidence_score s' =
              Some (if decision_type s' = Some ''comparison'' \<and>
                       \<not> (\<exists>kw \<in> set context_keywords. sublist kw (str_lower py (user_input s)))
                    then min c 0.67 else c))
       \<and> (\<forall>c' kind u. adjust_confidence_for_comparison py c' kind u =
              (if kind = ''comparison'' \<and>
                  \<not> (\<exists>kw \<in> set context_keywords. sublist kw (str_lower py u))
               then min c' 0.67 else c'))
       \<and> (\<forall>u. \<not> (\<exists>kw \<in> set context_keywords. sublist kw (str_lower py u)) \<longrightarrow>
              adjust_confidence_for_comparison py 0.95 ''comparison'' u = 0.67)"
proof (intro conjI allI impI)
  show "\<exists>s'. snd (run_domain_reasoning py llm s) = Inr s' \<and>
            confidence_score s' =
              Some (if decision_type s' = Some ''comparison'' \<and>
                       \<not> (\<exists>kw \<in> set context_keywords. sublist kw (str_lower py (user_input s)))
                    then min c 0.67 else c)"
    using run_domain_reasoning_returns [of py llm s items g c, OF assms]
    by (simp add: adjust_confidence_cases)
next
  fix c' kind u
  show "adjust_confidence_for_comparison py c' kind u =
          (if kind = ''comparison'' \<and>
              \<not> (\<exists>kw \<in> set context_keywords. sublist kw (str_lower py u))
           then min c' 0.67 else c')"
    by (rule adjust_confidence_cases)
next
  fix u
  assume "\<not> (\<exists>kw \<in> set context_keywords. sublist kw (str_lower py u))"
  then show "adjust_confidence_for_comparison py 0.95 ''comparison'' u = 0.67"
    by (simp add: adjust_confidence_cases)
qed

theorem confidence_capped_without_context_witness:
  "parse_or_fallback (ascii_runtime (parses which_answer_text (JObj which_answer_items)))
       (always which_answer_text (domain_messages (user_input (initial_state query_ml))))
     = JObj which_answer_items
   \<and> get_or which_answer_items ''interpreted_goal'' (JStr [])
     = JStr ''Decide which is better: ML vs backend''
   \<and> py_float (ascii_runtime (parses which_answer_text (JObj which_answer_items)))
       (get_or which_answer_items ''confidence_score'' (JFloat 0.5)) = Inr 0.95
   \<and> \<not> (\<exists>kw \<in> set context_keywords. sublist kw (ascii_lower query_ml))
   \<and> map_sum id confidence_score
       (snd (run_domain_reasoning
               (ascii_runtime (parses which_answer_text (JObj which_answer_items)))
               (always which_answer_text) (initial_state query_ml)))
     = Inr (Some 0.67)
   \<and> adjust_confidence_for_comparison
       (ascii_runtime (parses which_answer_text (JObj which_answer_items)))
       0.95 ''comparison'' query_ml = 0.67"
proof -
  let ?py = "ascii_runtime (parses which_answer_text (JObj which_answer_items))"
  let ?g = "''Decide which is better: ML vs backend''"
  have parsed: "parse_or_fallback ?py
       (always which_answer_text (domain_messages (user_input (initial_state query_ml))))
     = JObj which_answer_items"
    by (simp add: parse_or_fallback_def ascii_runtime_def parses_def always_def)
  have goal: "get_or which_answer_items ''interpreted_goal'' (JStr []) = JStr ?g"
    by (simp add: get_or_def which_answer_items_def)
  have conf: "py_float ?py (get_or which_answer_items ''confidence_score'' (JFloat 0.5)) = Inr 0.95"
    by (simp add: get_or_def which_answer_items_def py_float_def)
  have "\<not> any_in context_keywords (ascii_lower query_ml)"
    by code_simp
  then have none: "\<not> (\<exists>kw \<in> set context_keywords. sublist kw (ascii_lower query_ml))"
    by (simp add: any_in_sublist)
  have lower: "str_lower ?py = ascii_lower"
    by (simp add: ascii_runtime_def)
  have run: "map_sum id confidence_score
       (snd (run_domain_reasoning ?py (always which_answer_text) (initial_state query_ml)))
     = Inr (Some 0.67)"
    by code_simp
  note all = confidence_capped_without_context
         [of ?py "always which_answer_text" "initial_state query_ml" which_answer_items ?g "0.95",
          OF parsed goal conf]
  from all none lower
  have "adjust_confidence_for_comparison ?py 0.95 ''comparison'' query_ml = 0.67"
    by simp
  with parsed goal conf none run show ?thesis
    by blast
qed

section \<open>Domain Reasoning: the constraints\<close>

text \<open>
  Claim C5. Whenever \<open>run_domain_reasoning\<close> returns, \<open>extracted_constraints\<close> is the
  list that \<open>extract_explicit_constraints\<close> computes from \<open>user_input\<close> alone: it holds
  exactly the categories among \<open>time\<close>, \<open>budget\<close>, \<open>experience\<close>, \<open>priority\<close>,
  \<open>interest\<close>, \<open>skill_gap\<close> one of whose trigger phrases is a substring of the
  lower-cased \<open>user_input\<close>, each once. Nothing of the backend's answer enters it: any
  other backend and any other \<^verbatim>\<open>json.loads\<close> gives the same list. For
  \<open>"I'm a beginner and I have limited time"\<close> the list is \<open>time\<close>, \<open>experience\<close>.
\<close>

theorem constraints_rederived_from_user_input:
  assumes "snd (run_domain_reasoning py llm s) = Inr s'"
  shows "extracted_constraints s' = Some (extract_explicit_constraints py (user_input s))
       \<and> set (extract_explicit_constraints py (user_input s)) =
           {category. \<exists>keywords. (category, keywords) \<in> set explicit_keywords \<and>
              (\<exists>kw \<in> set keywords. sublist kw (str_lower py (user_input s)))}
       \<and> set (extract_explicit_constraints py (user_input s))
           \<subseteq> {''time'', ''budget'', ''experience'', ''priority'', ''interest'', ''skill_gap''}
       \<and> distinct (extract_explicit_constraints py (user_input s))
       \<and> (\<forall>loads llm' s''.
             snd (run_domain_reasoning (py\<lparr>json_loads := loads\<rparr>) llm' s) = Inr s'' \<longrightarrow>
             extracted_constraints s'' = extracted_constraints s')
       \<and> (str_lower py ''I'm a beginner and I have limited time''
             = ''i'm a beginner and i have limited time'' \<longrightarrow>
           user_input s = ''I'm a beginner and I have limited time'' \<longrightarrow>
           extracted_constraints s' = Some [''time'', ''experience''])"
proof (intro conjI allI impI)
  from run_domain_reasoning_Inr [OF assms]
  show stored: "extracted_constraints s' = Some (extract_explicit_constraints py (user_input s))"
    by auto
  show "set (extract_explicit_constraints py (user_input s)) =
           {category. \<exists>keywords. (category, keywords) \<in> set explicit_keywords \<and>
              (\<exists>kw \<in> set keywords. sublist kw (str_lower py (user_input s)))}"
    by (rule set_categories)
  show "set (extract_explicit_constraints py (user_input s))
           \<subseteq> {''time'', ''budget'', ''experience'', ''priority'', ''interest'', ''skill_gap''}"
    unfolding set_categories by (auto simp: explicit_keywords_def)
  show "distinct (extract_explicit_constraints py (user_input s))"
    by (rule distinct_categories)
  {
    fix loads llm' s''
    assume "snd (run_domain_reasoning (py\<lparr>json_loads := loads\<rparr>) llm' s) = Inr s''"
    from run_domain_reasoning_Inr [OF this]
    have "extracted_constraints s''
            = Some (extract_explicit_constraints (py\<lparr>json_loads := loads\<rparr>) (user_input s))"
      by auto
    with stored show "extracted_constraints s'' = extracted_constraints s'"
      by (simp add: extract_explicit_constraints_def)
  }
  {
    assume lower: "str_lower py ''I'm a beginner and I have limited time''
             = ''i'm a beginner and i have limited time''"
      and query: "user_input s = ''I'm a beginner and I have limited time''"
    have "scan_categories ''i'm a beginner and i have limited time'' explicit_keywords []
            = [''time'', ''experience'']"
      by code_simp
    with stored lower query show "extracted_constraints s' = Some [''time'', ''experience'']"
      by (simp add: extract_explicit_constraints_def)
  }
qed

theorem constraints_rederived_from_user_input_witness:
  "snd (run_domain_reasoning (ascii_runtime not_json) (always ''I cannot answer that.'')
          (initial_state query_beginner))
     = Inr ((initial_state query_beginner)
              \<lparr>interpreted_goal := Some ''Unable to parse student goal.'',
               extracted_constraints := Some [''time'', ''experience''],
               missing_information := Some (JArr [JStr ''Please restate your question clearly.'']),
               confidence_score := Some 0.3,
               decision_type := Some ''direct_path''\<rparr>)
   \<and> set (extract_explicit_constraints (ascii_runtime not_json) query_beginner)
       = {''experience'', ''time''}
   \<and> distinct (extract_explicit_constraints (ascii_runtime not_json) query_beginner)"
proof -
  let ?py = "ascii_runtime not_json"
  let ?s' = "(initial_state query_beginner)
              \<lparr>interpreted_goal := Some ''Unable to parse student goal.'',
               extracted_constraints := Some [''time'', ''experience''],
               missing_information := Some (JArr [JStr ''Please restate your question clearly.'']),
               confidence_score := Some 0.3,
               decision_type := Some ''direct_path''\<rparr>"
  have run: "snd (run_domain_reasoning ?py (always ''I cannot answer that.'')
                (initial_state query_beginner)) = Inr ?s'"
    by code_simp
  have query: "user_input (initial_state query_beginner) = query_beginner"
    by (simp add: initial_state_def)
  from constraints_rederived_from_user_input [OF run] query
  have "extract_explicit_constraints ?py query_beginner = [''time'', ''experience'']"
    and "distinct (extract_explicit_constraints ?py query_beginner)"
    by simp_all
  with run show ?thesis
    by auto
qed


section \<open>Recommendation: the two arms\<close>

lemma recommendation_branch_iff:
  "recommendation_branch s = Comparison \<longleftrightarrow> decision_type s = Some ''comparison''"
  by (simp add: recommendation_branch_def or_list_def split: option.split)

lemma coordinator_branch_iff:
  "coordinator_branch s = Comparison \<longleftrightarrow> decision_type s = Some ''comparison''"
  by (simp add: coordinator_branch_def or_list_def split: option.split)

lemma the_strs_map: "the_strs (map JStr ss) = Some ss"
  by (induction ss) simp_all

text \<open>A \<open>missing_information\<close> that fits its declared type gives a line of text.\<close>

lemma missing_text_declared_type:
  assumes "field = None \<or> (\<exists>ss. field = Some (JArr (map JStr ss)))"
  shows "\<exists>line. missing_text py (or_else field (JArr [])) = Inr line"
  using assms
  by (auto simp: missing_text_def or_else_def py_join_def the_strs_map)

lemma optional_dict [simp]: "optional (JObj items) = Some (JObj items)"
  by (simp add: optional_def)

text \<open>
  The value that the comparison arm returns for what \<^verbatim>\<open>json.loads\<close> gave: the parsed
  dict when it passes the three checks, the fallback otherwise.
\<close>

lemma generate_comparison_recommendation_unfold:
  assumes "missing_text py missing = Inr line"
  shows "generate_comparison_recommendation py llm goal constraints missing =
     ([comparison_messages goal constraints line],
      Inr (case json_loads py (llm (comparison_messages goal constraints line)) of
             None \<Rightarrow> comparison_fallback goal
           | Some v \<Rightarrow>
               (case v of
                  JObj items \<Rightarrow>
                    if set required_keys \<subseteq> fst ` set items
                       \<and> truthy (get_or items ''exploration_plan'' JNull)
                    then v else comparison_fallback goal
                | _ \<Rightarrow> comparison_fallback goal)))"
  using assms
  by (auto simp: generate_comparison_recommendation_def Let_def list_all_iff
           split: option.split json.split)

lemma generate_direct_recommendation_unfold:
  assumes "missing_text py missing = Inr line"
  shows "generate_direct_recommendation py llm goal constraints missing =
     ([direct_messages goal constraints line],
      Inr (case json_loads py (llm (direct_messages goal constraints line)) of
             None \<Rightarrow> direct_fallback
           | Some v \<Rightarrow> v))"
  using assms
  by (auto simp: generate_direct_recommendation_def Let_def split: option.split)

lemma fallback_keys:
  "\<exists>items. comparison_fallback goal = JObj items
      \<and> set required_keys \<subseteq> fst ` set items
      \<and> truthy (get_or items ''exploration_plan'' JNull)"
  by (simp add: comparison_fallback_def required_keys_def get_or_def)

lemma accepted_or_fallback:
  "\<exists>items. (case parsed of
               None \<Rightarrow> comparison_fallback goal
             | Some v \<Rightarrow>
                 (case v of
                    JObj items \<Rightarrow>
                      if set required_keys \<subseteq> fst ` set items
                         \<and> truthy (get_or items ''exploration_plan'' JNull)
                      then v else comparison_fallback goal
                  | _ \<Rightarrow> comparison_fallback goal)) = JObj items
      \<and> set required_keys \<subseteq> fst ` set items
      \<and> truthy (get_or items ''exploration_plan'' JNull)"
  using fallback_keys [of goal]
  by (auto split: option.split json.split)

lemma required_keys_set:
  "set required_keys = {''strategy'', ''exploration_plan'', ''decision_criteria'',
                        ''final_suggestion'', ''resources''}"
  by (auto simp: required_keys_def)

text \<open>\<open>run_recommendation\<close> on its comparison arm.\<close>

lemma run_recommendation_comparison:
  assumes "decision_type s = Some ''comparison''"
    and "missing_text py (or_else (missing_information s) (JArr [])) = Inr line"
  shows "run_recommendation py llm s =
     ([comparison_messages (or_list (interpreted_goal s) (user_input s))
         (or_list (extracted_constraints s) []) line],
      Inr (s\<lparr>recommendations := Some
        (case json_loads py
                (llm (comparison_messages (or_list (interpreted_goal s) (user_input s))
                        (or_list (extracted_constraints s) []) line)) of
           None \<Rightarrow> comparison_fallback (or_list (interpreted_goal s) (user_input s))
         | Some v \<Rightarrow>
             (case v of
                JObj items \<Rightarrow>
                  if set required_keys \<subseteq> fst ` set items
                     \<and> truthy (get_or items ''exploration_plan'' JNull)
                  then v
                  else comparison_fallback (or_list (interpreted_goal s) (user_input s))
              | _ \<Rightarrow> comparison_fallback (or_list (interpreted_goal s) (user_input s))))\<rparr>))"
proof -
  let ?goal = "or_list (interpreted_goal s) (user_input s)"
  let ?msgs = "comparison_messages ?goal (or_list (extracted_constraints s) []) line"
  from accepted_or_fallback [where parsed = "json_loads py (llm ?msgs)" and goal = ?goal]
  obtain items where "(case json_loads py (llm ?msgs) of
             None \<Rightarrow> comparison_fallback ?goal
           | Some v \<Rightarrow>
               (case v of
                  JObj items \<Rightarrow>
                    if set required_keys \<subseteq> fst ` set items
                       \<and> truthy (get_or items ''exploration_plan'' JNull)
                    then v else comparison_fallback ?goal
                | _ \<Rightarrow> comparison_fallback ?goal)) = JObj items"
    by (elim exE conjE)
  with assms(1) generate_comparison_recommendation_unfold [OF assms(2), of llm ?goal]
  show ?thesis
    by (simp add: run_recommendation_def Let_def recommendation_branch_iff)
qed

lemma run_recommendation_comparison_raises:
  assumes "decision_type s = Some ''comparison''"
    and "missing_text py (or_else (missing_information s) (JArr [])) = Inl e"
  shows "run_recommendation py llm s = ([], Inl e)"
  using assms
  by (simp add: run_recommendation_def Let_def recommendation_branch_iff
        generate_comparison_recommendation_def)

text \<open>\<open>run_recommendation\<close> on its direct-path arm.\<close>

lemma run_recommendation_direct:
  assumes "decision_type s \<noteq> Some ''comparison''"
    and "missing_text py (or_else (missing_information s) (JArr [])) = Inr line"
  shows "run_recommendation py llm s =
     ([direct_messages (or_list (interpreted_goal s) (user_input s))
         (or_list (extracted_constraints s) []) line],
      case json_loads py
             (llm (direct_messages (or_list (interpreted_goal s) (user_input s))
                     (or_list (extracted_constraints s) []) line)) of
        None \<Rightarrow> Inr (s\<lparr>recommendations := Some direct_fallback\<rparr>)
      | Some v \<Rightarrow>
          if is_dict v then Inr (s\<lparr>recommendations := Some v\<rparr>) else Inl AttributeError)"
proof -
  have "and_then (dict_get v ''primary_path'' JNull)
          (\<lambda>logged. Inr (s\<lparr>recommendations := optional v\<rparr>))
        = (if is_dict v then Inr (s\<lparr>recommendations := Some v\<rparr>) else Inl AttributeError)"
    for v
    by (cases v) (simp_all add: dict_get_def)
  with assms(1) generate_direct_recommendation_unfold [OF assms(2), of llm]
  show ?thesis
    by (simp add: run_recommendation_def Let_def recommendation_branch_iff direct_fallback_def
          split: option.split)
qed

lemma run_recommendation_direct_raises:
  assumes "decision_type s \<noteq> Some ''comparison''"
    and "missing_text py (or_else (missing_information s) (JArr [])) = Inl e"
  shows "run_recommendation py llm s = ([], Inl e)"
  using assms
  by (simp add: run_recommendation_def Let_def recommendation_branch_iff
        generate_direct_recommendation_def)

section \<open>Recommendation: the comparison arm stores a checked answer or the fallback\<close>

text \<open>
  Claim C1, as stated, fails. The third check of the comparison arm is
  \<^verbatim>\<open>if not recommendations.get("exploration_plan")\<close>, a test of Python truth and not
  of shape. An answer with the five keys whose \<open>exploration_plan\<close> is the number \<open>7\<close>
  passes it: \<open>run_recommendation\<close> stores that answer, not the fallback, the stored plan
  is no sequence at all (\<^verbatim>\<open>len\<close> of it is a \<^verbatim>\<open>TypeError\<close>), and \<open>compile_response\<close>
  then ends with that exception instead of a response.
\<close>

theorem number_plan_counterexample:
  "snd (run_recommendation (ascii_runtime (parses number_plan_text number_plan))
          (always number_plan_text) comparison_state)
     = Inr (comparison_state\<lparr>recommendations := Some number_plan\<rparr>)
   \<and> number_plan \<noteq> comparison_fallback ''Decide which is better: ML vs backend''
   \<and> dict_get number_plan ''exploration_plan'' JNull = Inr (JInt 7)
   \<and> py_len (ascii_runtime not_json) (JInt 7) = Inl TypeError
   \<and> compile_response (ascii_runtime not_json) (always ''I cannot answer that.'')
        (comparison_state\<lparr>recommendations := Some number_plan\<rparr>)
     = ([], Inl TypeError)"
  by code_simp

text \<open>
  Claim C1, amended. The fallback object is the fixed dict written out below, whatever
  the goal: its plan is a list of two week entries. Let \<open>decision_type\<close> be
  \<open>comparison\<close>. When \<open>missing_information\<close> fits its declared type (unset, or a list
  of strings), the context block can be built; and whenever it can, \<open>run_recommendation\<close>
  returns after one backend call, with \<open>recommendations\<close> set to the fallback object
  if the answer is not JSON, is JSON but not a dict, is a dict without one of the five
  keys \<open>strategy\<close>, \<open>exploration_plan\<close>, \<open>decision_criteria\<close>, \<open>final_suggestion\<close>,
  \<open>resources\<close>, or is a dict whose \<open>exploration_plan\<close> is false in Python's sense
  (\<^verbatim>\<open>None\<close>, \<^verbatim>\<open>False\<close>, zero, or an empty string, list or dict); and set to the
  parsed dict as it is in every other case. So whenever the stage returns a state, its
  \<open>recommendations\<close> is a dict with the five keys whose \<open>exploration_plan\<close> is true in
  Python's sense, hence not an empty list. Nothing more is said of the shape of an
  accepted plan.
\<close>

theorem comparison_recommendations_checked_or_fallback:
  assumes "decision_type s = Some ''comparison''"
  shows "(\<forall>goal. comparison_fallback goal =
           JObj [(''strategy'', JStr ''exploration_experiment''),
                 (''exploration_plan'',
                    JArr [JObj [(''week'', JInt 1),
                                (''focus'', JStr ''Backend Development''),
                                (''task'', JStr ''Build a small REST API using FastAPI with authentication and database integration.'')],
                          JObj [(''week'', JInt 2),
                                (''focus'', JStr ''Machine Learning''),
                                (''task'', JStr ''Build a small end-to-end ML classification project and expose it via a simple API.'')]]),
                 (''decision_criteria'',
                    JArr [JStr ''Which work felt more engaging?'',
                          JStr ''Which learning curve felt sustainable?'',
                          JStr ''Which type of problem-solving excited you more?'']),
                 (''final_suggestion'',
                    JStr ''Choose the path that maintains your long-term curiosity after hands-on exploration.''),
                 (''resources'',
                    JArr [JStr ''FastAPI official documentation'',
                          JStr ''Scikit-learn documentation'',
                          JStr ''Andrew Ng Machine Learning Course''])])
       \<and> (\<forall>s'. snd (run_recommendation py llm s) = Inr s' \<longrightarrow>
            (\<exists>items plan. recommendations s' = Some (JObj items)
               \<and> {''strategy'', ''exploration_plan'', ''decision_criteria'',
                   ''final_suggestion'', ''resources''} \<subseteq> fst ` set items
               \<and> map_of items ''exploration_plan'' = Some plan
               \<and> truthy plan \<and> plan \<noteq> JArr []))
       \<and> (missing_information s = None
            \<or> (\<exists>ss. missing_information s = Some (JArr (map JStr ss))) \<longrightarrow>
          (\<exists>line. missing_text py (or_else (missing_information s) (JArr [])) = Inr line))
       \<and> (\<forall>line. missing_text py (or_else (missing_information s) (JArr [])) = Inr line \<longrightarrow>
          run_recommendation py llm s =
             ([comparison_messages (or_list (interpreted_goal s) (user_input s))
                 (or_list (extracted_constraints s) []) line],
              Inr (s\<lparr>recommendations := Some
                (case json_loads py
                        (llm (comparison_messages (or_list (interpreted_goal s) (user_input s))
                                (or_list (extracted_constraints s) []) line)) of
                   None \<Rightarrow> comparison_fallback (or_list (interpreted_goal s) (user_input s))
                 | Some v \<Rightarrow>
                     (case v of
                        JObj items \<Rightarrow>
                          if {''strategy'', ''exploration_plan'', ''decision_criteria'',
                              ''final_suggestion'', ''resources''} \<subseteq> fst ` set items
                             \<and> truthy (get_or items ''exploration_plan'' JNull)
                          then v
                          else comparison_fallback (or_list (interpreted_goal s) (user_input s))
                      | _ \<Rightarrow> comparison_fallback
                               (or_list (interpreted_goal s) (user_input s))))\<rparr>)))"
proof (intro conjI allI impI)
  let ?goal = "or_list (interpreted_goal s) (user_input s)"
  let ?missing = "or_else (missing_information s) (JArr [])"
  {
    fix goal
    show "comparison_fallback goal =
           JObj [(''strategy'', JStr ''exploration_experiment''),
                 (''exploration_plan'',
                    JArr [JObj [(''week'', JInt 1),
                                (''focus'', JStr ''Backend Development''),
                                (''task'', JStr ''Build a small REST API using FastAPI with authentication and database integration.'')],
                          JObj [(''week'', JInt 2),
                                (''focus'', JStr ''Machine Learning''),
                                (''task'', JStr ''Build a small end-to-end ML classification project and expose it via a simple API.'')]]),
                 (''decision_criteria'',
                    JArr [JStr ''Which work felt more engaging?'',
                          JStr ''Which learning curve felt sustainable?'',
                          JStr ''Which type of problem-solving excited you more?'']),
                 (''final_suggestion'',
                    JStr ''Choose the path that maintains your long-term curiosity after hands-on exploration.''),
                 (''resources'',
                    JArr [JStr ''FastAPI official documentation'',
                          JStr ''Scikit-learn documentation'',
                          JStr ''Andrew Ng Machine Learning Course''])]"
      by (simp add: comparison_fallback_def)
  }
  {
    fix s'
    assume returns: "snd (run_recommendation py llm s) = Inr s'"
    show "\<exists>items plan. recommendations s' = Some (JObj items)
               \<and> {''strategy'', ''exploration_plan'', ''decision_criteria'',
                   ''final_suggestion'', ''resources''} \<subseteq> fst ` set items
               \<and> map_of items ''exploration_plan'' = Some plan
               \<and> truthy plan \<and> plan \<noteq> JArr []"
    proof (cases "missing_text py ?missing")
      case (Inl e)
      from run_recommendation_comparison_raises [OF assms this, of llm] returns
      show ?thesis
        by simp
    next
      case (Inr line)
      let ?msgs = "comparison_messages ?goal (or_list (extracted_constraints s) []) line"
      from accepted_or_fallback [where parsed = "json_loads py (llm ?msgs)" and goal = ?goal]
      obtain items where items: "(case json_loads py (llm ?msgs) of
             None \<Rightarrow> comparison_fallback ?goal
           | Some v \<Rightarrow>
               (case v of
                  JObj items \<Rightarrow>
                    if set required_keys \<subseteq> fst ` set items
                       \<and> truthy (get_or items ''exploration_plan'' JNull)
                    then v else comparison_fallback ?goal
                | _ \<Rightarrow> comparison_fallback ?goal)) = JObj items"
        and present: "set required_keys \<subseteq> fst ` set items"
        and plan: "truthy (get_or items ''exploration_plan'' JNull)"
        by (elim exE conjE)
      from run_recommendation_comparison [OF assms Inr, of llm] items returns
      have stored: "recommendations s' = Some (JObj items)"
        by auto
      from plan obtain v where v: "map_of items ''exploration_plan'' = Some v" and "truthy v"
        by (cases "map_of items ''exploration_plan''") (auto simp: get_or_def)
      then have "v \<noteq> JArr []"
        by auto
      with stored present v \<open>truthy v\<close> show ?thesis
        unfolding required_keys_set by simp
    qed
  }
  {
    assume "missing_information s = None
            \<or> (\<exists>ss. missing_information s = Some (JArr (map JStr ss)))"
    then show "\<exists>line. missing_text py ?missing = Inr line"
      by (rule missing_text_declared_type)
  }
  {
    fix line
    assume "missing_text py ?missing = Inr line"
    from run_recommendation_comparison [OF assms this, of llm]
    show "run_recommendation py llm s =
             ([comparison_messages ?goal (or_list (extracted_constraints s) []) line],
              Inr (s\<lparr>recommendations := Some
                (case json_loads py
                        (llm (comparison_messages ?goal
                                (or_list (extracted_constraints s) []) line)) of
                   None \<Rightarrow> comparison_fallback ?goal
                 | Some v \<Rightarrow>
                     (case v of
                        JObj items \<Rightarrow>
                          if {''strategy'', ''exploration_plan'', ''decision_criteria'',
                              ''final_suggestion'', ''resources''} \<subseteq> fst ` set items
                             \<and> truthy (get_or items ''exploration_plan'' JNull)
                          then v
                          else comparison_fallback ?goal
                      | _ \<Rightarrow> comparison_fallback ?goal))\<rparr>))"
      unfolding required_keys_set .
  }
qed

theorem comparison_recommendations_checked_or_fallback_witness:
  "decision_type comparison_state = Some ''comparison''
   \<and> missing_information comparison_state = Some (JArr (map JStr [''current year of study'']))
   \<and> missing_text (ascii_runtime not_json)
        (or_else (missing_information comparison_state) (JArr [])) = Inr ''current year of study''
   \<and> snd (run_recommendation (ascii_runtime not_json) (always ''I cannot answer that.'')
            comparison_state)
       = Inr (comparison_state\<lparr>recommendations := Some
           (JObj [(''strategy'', JStr ''exploration_experiment''),
                 (''exploration_plan'',
                    JArr [JObj [(''week'', JInt 1),
                                (''focus'', JStr ''Backend Development''),
                                (''task'', JStr ''Build a small REST API using FastAPI with authentication and database integration.'')],
                          JObj [(''week'', JInt 2),
                                (''focus'', JStr ''Machine Learning''),
                                (''task'', JStr ''Build a small end-to-end ML classification project and expose it via a simple API.'')]]),
                 (''decision_criteria'',
                    JArr [JStr ''Which work felt more engaging?'',
                          JStr ''Which learning curve felt sustainable?'',
                          JStr ''Which type of problem-solving excited you more?'']),
                 (''final_suggestion'',
                    JStr ''Choose the path that maintains your long-term curiosity after hands-on exploration.''),
                 (''resources'',
                    JArr [JStr ''FastAPI official documentation'',
                          JStr ''Scikit-learn documentation'',
                          JStr ''Andrew Ng Machine Learning Course''])])\<rparr>)
   \<and> snd (run_recommendation (ascii_runtime (parses partial_plan_text partial_plan))
            (always partial_plan_text) comparison_state)
       = Inr (comparison_state\<lparr>recommendations :=
                Some (comparison_fallback ''Decide which is better: ML vs backend'')\<rparr>)
   \<and> snd (run_recommendation (ascii_runtime (parses full_plan_text (JObj full_plan_items)))
            (always full_plan_text) comparison_state)
       = Inr (comparison_state\<lparr>recommendations := Some (JObj full_plan_items)\<rparr>)
   \<and> (\<exists>items plan.
         recommendations (comparison_state\<lparr>recommendations :=
                Some (comparison_fallback ''Decide which is better: ML vs backend'')\<rparr>)
           = Some (JObj items)
         \<and> {''strategy'', ''exploration_plan'', ''decision_criteria'',
             ''final_suggestion'', ''resources''} \<subseteq> fst ` set items
         \<and> map_of items ''exploration_plan'' = Some plan
         \<and> truthy plan \<and> plan \<noteq> JArr [])"
proof -
  let ?s' = "comparison_state\<lparr>recommendations :=
                Some (comparison_fallback ''Decide which is better: ML vs backend'')\<rparr>"
  let ?py = "ascii_runtime not_json"
  let ?llm = "always ''I cannot answer that.''"
  have kind: "decision_type comparison_state = Some ''comparison''"
    by (simp add: comparison_state_def)
  have missing: "missing_information comparison_state
                   = Some (JArr (map JStr [''current year of study'']))"
    by (simp add: comparison_state_def)
  have line: "missing_text ?py (or_else (missing_information comparison_state) (JArr []))
                = Inr ''current year of study''"
    by code_simp
  have not_json: "snd (run_recommendation ?py ?llm comparison_state) = Inr ?s'"
    by code_simp
  have partial: "snd (run_recommendation (ascii_runtime (parses partial_plan_text partial_plan))
                        (always partial_plan_text) comparison_state) = Inr ?s'"
    by code_simp
  have full: "snd (run_recommendation (ascii_runtime (parses full_plan_text (JObj full_plan_items)))
                     (always full_plan_text) comparison_state)
       = Inr (comparison_state\<lparr>recommendations := Some (JObj full_plan_items)\<rparr>)"
    by code_simp
  note all = comparison_recommendations_checked_or_fallback
               [of comparison_state ?py ?llm, OF kind]
  from all have fixed: "comparison_fallback ''Decide which is better: ML vs backend'' =
           JObj [(''strategy'', JStr ''exploration_experiment''),
                 (''exploration_plan'',
                    JArr [JObj [(''week'', JInt 1),
                                (''focus'', JStr ''Backend Development''),
                                (''task'', JStr ''Build a small REST API using FastAPI with authentication and database integration.'')],
                          JObj [(''week'', JInt 2),
                                (''focus'', JStr ''Machine Learning''),
                                (''task'', JStr ''Build a small end-to-end ML classification project and expose it via a simple API.'')]]),
                 (''decision_criteria'',
                    JArr [JStr ''Which work felt more engaging?'',
                          JStr ''Which learning curve felt sustainable?'',
                          JStr ''Which type of problem-solving excited you more?'']),
                 (''final_suggestion'',
                    JStr ''Choose the path that maintains your long-term curiosity after hands-on exploration.''),
                 (''resources'',
                    JArr [JStr ''FastAPI official documentation'',
                          JStr ''Scikit-learn documentation'',
                          JStr ''Andrew Ng Machine Learning Course''])]"
    by (elim conjE allE [of _ "''Decide which is better: ML vs backend''"])
  from all have "\<forall>s'. snd (run_recommendation ?py ?llm comparison_state) = Inr s' \<longrightarrow>
            (\<exists>items plan. recommendations s' = Some (JObj items)
               \<and> {''strategy'', ''exploration_plan'', ''decision_criteria'',
                   ''final_suggestion'', ''resources''} \<subseteq> fst ` set items
               \<and> map_of items ''exploration_plan'' = Some plan
               \<and> truthy plan \<and> plan \<noteq> JArr [])"
    by (elim conjE)
  then have valid: "\<exists>items plan. recommendations ?s' = Some (JObj items)
         \<and> {''strategy'', ''exploration_plan'', ''decision_criteria'',
             ''final_suggestion'', ''resources''} \<subseteq> fst ` set items
         \<and> map_of items ''exploration_plan'' = Some plan
         \<and> truthy plan \<and> plan \<noteq> JArr []"
    using not_json by (elim allE [of _ ?s'] impE)
  from not_json have spelled: "snd (run_recommendation ?py ?llm comparison_state)
       = Inr (comparison_state\<lparr>recommendations := Some
           (JObj [(''strategy'', JStr ''exploration_experiment''),
                 (''exploration_plan'',
                    JArr [JObj [(''week'', JInt 1),
                                (''focus'', JStr ''Backend Development''),
                                (''task'', JStr ''Build a small REST API using FastAPI with authentication and database integration.'')],
                          JObj [(''week'', JInt 2),
                                (''focus'', JStr ''Machine Learning''),
                                (''task'', JStr ''Build a small end-to-end ML classification project and expose it via a simple API.'')]]),
                 (''decision_criteria'',
                    JArr [JStr ''Which work felt more engaging?'',
                          JStr ''Which learning curve felt sustainable?'',
                          JStr ''Which type of problem-solving excited you more?'']),
                 (''final_suggestion'',
                    JStr ''Choose the path that maintains your long-term curiosity after hands-on exploration.''),
                 (''resources'',
                    JArr [JStr ''FastAPI official documentation'',
                          JStr ''Scikit-learn documentation'',
                          JStr ''Andrew Ng Machine Learning Course''])])\<rparr>)"
    unfolding fixed .
  from kind missing line spelled partial full valid show ?thesis
    by (intro conjI)
qed

section \<open>Recommendation: the direct-path arm\<close>

text \<open>
  Claim C7. On the direct path (any \<open>decision_type\<close> but \<open>comparison\<close>), once the context
  block is built, \<open>run_recommendation\<close> calls the backend once. If the answer is not
  JSON, it returns the state with \<open>recommendations\<close> set to the degraded object, which
  is the dict written out below. If the answer parses to a dict, that dict is stored as
  it is, whatever its keys: no key is checked.
\<close>

theorem direct_path_parse_failure_degrades:
  assumes "decision_type s \<noteq> Some ''comparison''"
    and "missing_text py (or_else (missing_information s) (JArr [])) = Inr line"
  shows "fst (run_recommendation py llm s) =
           [direct_messages (or_list (interpreted_goal s) (user_input s))
              (or_list (extracted_constraints s) []) line]
     \<and> (json_loads py (llm (direct_messages (or_list (interpreted_goal s) (user_input s))
                               (or_list (extracted_constraints s) []) line)) = None \<longrightarrow>
          snd (run_recommendation py llm s) =
            Inr (s\<lparr>recommendations := Some
                  (JObj [(''primary_path'', JStr ''Unable to parse recommendations.''),
                         (''secondary_path'', JStr ''N/A''),
                         (''reasoning'', JStr ''LLM returned unexpected format.''),
                         (''immediate_next_steps'', JArr []),
                         (''resources'', JArr [])])\<rparr>))
     \<and> (\<forall>items. json_loads py (llm (direct_messages (or_list (interpreted_goal s) (user_input s))
                                       (or_list (extracted_constraints s) []) line))
                    = Some (JObj items) \<longrightarrow>
          snd (run_recommendation py llm s) = Inr (s\<lparr>recommendations := Some (JObj items)\<rparr>))"
  unfolding run_recommendation_direct [OF assms]
  by (simp add: direct_fallback_def)

theorem direct_path_parse_failure_degrades_witness:
  "decision_type direct_state \<noteq> Some ''comparison''
   \<and> missing_text (ascii_runtime not_json)
        (or_else (missing_information direct_state) (JArr [])) = Inr ''none''
   \<and> json_loads (ascii_runtime not_json)
        (always ''I cannot answer that.''
           (direct_messages (or_list (interpreted_goal direct_state) (user_input direct_state))
              (or_list (extracted_constraints direct_state) []) ''none'')) = None
   \<and> snd (run_recommendation (ascii_runtime not_json) (always ''I cannot answer that.'')
            direct_state)
       = Inr (direct_state\<lparr>recommendations := Some
                  (JObj [(''primary_path'', JStr ''Unable to parse recommendations.''),
                         (''secondary_path'', JStr ''N/A''),
                         (''reasoning'', JStr ''LLM returned unexpected format.''),
                         (''immediate_next_steps'', JArr []),
                         (''resources'', JArr [])])\<rparr>)"
proof -
  let ?py = "ascii_runtime not_json"
  let ?llm = "always ''I cannot answer that.''"
  have kind: "decision_type direct_state \<noteq> Some ''comparison''"
    by (simp add: direct_state_def)
  have line: "missing_text ?py (or_else (missing_information direct_state) (JArr [])) = Inr ''none''"
    by (simp add: missing_text_def or_else_def direct_state_def)
  have fails: "json_loads ?py (?llm msgs) = None" for msgs
    by (simp add: ascii_runtime_def not_json_def)
  from direct_path_parse_failure_degrades [of direct_state ?py "''none''" ?llm, OF kind line]
       fails
  have "snd (run_recommendation ?py ?llm direct_state)
       = Inr (direct_state\<lparr>recommendations := Some
                  (JObj [(''primary_path'', JStr ''Unable to parse recommendations.''),
                         (''secondary_path'', JStr ''N/A''),
                         (''reasoning'', JStr ''LLM returned unexpected format.''),
                         (''immediate_next_steps'', JArr []),
                         (''resources'', JArr [])])\<rparr>)"
    by simp
  with kind line fails show ?thesis
    by (intro conjI)
qed

text \<open>
  Claim C10, as stated, fails: when the backend answers the direct-path prompt with a
  JSON array or a JSON string, \<open>run_recommendation\<close> stores nothing. It raises
  \<^verbatim>\<open>AttributeError\<close> in its log line, which calls \<^verbatim>\<open>.get\<close> on the parsed value.
\<close>

theorem non_mapping_answer_counterexample:
  "snd (run_recommendation (ascii_runtime (parses steps_text steps_array)) (always steps_text)
          direct_state) = Inl AttributeError
   \<and> snd (run_recommendation (ascii_runtime (parses name_text (JStr ''Data Science'')))
            (always name_text) direct_state) = Inl AttributeError"
  by code_simp

text \<open>
  Claim C10, amended. On the direct path, once the context block is built,
  \<open>generate_direct_recommendation\<close> returns every value that the answer parses to as it
  is, without checking that it is a dict; and \<open>run_recommendation\<close> stores it as it is
  when it is a dict, whatever its keys.
\<close>

theorem direct_path_answer_not_validated:
  assumes "decision_type s \<noteq> Some ''comparison''"
    and "missing_text py (or_else (missing_information s) (JArr [])) = Inr line"
    and "json_loads py (llm (direct_messages (or_list (interpreted_goal s) (user_input s))
                               (or_list (extracted_constraints s) []) line)) = Some v"
  shows "generate_direct_recommendation py llm (or_list (interpreted_goal s) (user_input s))
             (or_list (extracted_constraints s) []) (or_else (missing_information s) (JArr []))
           = ([direct_messages (or_list (interpreted_goal s) (user_input s))
                 (or_list (extracted_constraints s) []) line], Inr v)
     \<and> (is_dict v \<longrightarrow>
          run_recommendation py llm s =
             ([direct_messages (or_list (interpreted_goal s) (user_input s))
                 (or_list (extracted_constraints s) []) line],
              Inr (s\<lparr>recommendations := Some v\<rparr>)))"
  unfolding run_recommendation_direct [OF assms(1,2)]
    generate_direct_recommendation_unfold [OF assms(2)]
  using assms(3) by simp

theorem direct_path_answer_not_validated_witness:
  "decision_type direct_state \<noteq> Some ''comparison''
   \<and> missing_text (ascii_runtime (parses steps_text steps_array))
       (or_else (missing_information direct_state) (JArr [])) = Inr ''none''
   \<and> json_loads (ascii_runtime (parses steps_text steps_array))
       (always steps_text
          (direct_messages (or_list (interpreted_goal direct_state) (user_input direct_state))
             (or_list (extracted_constraints direct_state) []) ''none'')) = Some steps_array
   \<and> snd (generate_direct_recommendation (ascii_runtime (parses steps_text steps_array))
            (always steps_text) (or_list (interpreted_goal direct_state) (user_input direct_state))
            (or_list (extracted_constraints direct_state) [])
            (or_else (missing_information direct_state) (JArr [])))
       = Inr steps_array
   \<and> is_dict (JObj path_only_items)
   \<and> snd (run_recommendation (ascii_runtime (parses path_only_text (JObj path_only_items)))
            (always path_only_text) direct_state)
       = Inr (direct_state\<lparr>recommendations := Some (JObj path_only_items)\<rparr>)"
proof -
  let ?py = "ascii_runtime (parses steps_text steps_array)"
  let ?py' = "ascii_runtime (parses path_only_text (JObj path_only_items))"
  have kind: "decision_type direct_state \<noteq> Some ''comparison''"
    by (simp add: direct_state_def)
  have line: "missing_text ?py (or_else (missing_information direct_state) (JArr [])) = Inr ''none''"
    by (simp add: missing_text_def or_else_def direct_state_def)
  have line': "missing_text ?py' (or_else (missing_information direct_state) (JArr [])) = Inr ''none''"
    by (simp add: missing_text_def or_else_def direct_state_def)
  have array: "json_loads ?py (always steps_text msgs) = Some steps_array" for msgs
    by (simp add: ascii_runtime_def parses_def always_def)
  have dict: "json_loads ?py' (always path_only_text msgs) = Some (JObj path_only_items)" for msgs
    by (simp add: ascii_runtime_def parses_def always_def)
  from direct_path_answer_not_validated
         [of direct_state ?py "''none''" "always steps_text" steps_array, OF kind line array]
  have returned: "snd (generate_direct_recommendation ?py (always steps_text)
            (or_list (interpreted_goal direct_state) (user_input direct_state))
            (or_list (extracted_constraints direct_state) [])
            (or_else (missing_information direct_state) (JArr []))) = Inr steps_array"
    by simp
  from direct_path_answer_not_validated
         [of direct_state ?py' "''none''" "always path_only_text" "JObj path_only_items",
          OF kind line' dict]
  have stored: "snd (run_recommendation ?py' (always path_only_text) direct_state)
       = Inr (direct_state\<lparr>recommendations := Some (JObj path_only_items)\<rparr>)"
    by simp
  from kind line array returned stored show ?thesis
    by simp
qed


section \<open>Coordinator: the two arms\<close>

lemma compile_response_comparison:
  assumes "decision_type s = Some ''comparison''"
  shows "compile_response py llm s =
     ([], and_then (comparison_text py (or_else (recommendations s) (JObj [])))
            (\<lambda>response_text. Inr (s\<lparr>final_response := Some response_text\<rparr>)))"
  using assms by (simp add: compile_response_def Let_def coordinator_branch_iff)

lemma compile_response_direct:
  assumes "decision_type s \<noteq> Some ''comparison''"
  shows "compile_response py llm s =
     ([coordinator_messages py (or_list (interpreted_goal s) (user_input s))
         (or_else (recommendations s) (JObj []))],
      Inr (s\<lparr>final_response := Some
             (str_strip py
                (llm (coordinator_messages py (or_list (interpreted_goal s) (user_input s))
                        (or_else (recommendations s) (JObj [])))))\<rparr>))"
  using assms by (simp add: compile_response_def Let_def coordinator_branch_iff)

section \<open>Both stages take the same arm\<close>

lemma prompts_differ: "COMPARISON_SYSTEM_PROMPT \<noteq> DIRECT_PATH_SYSTEM_PROMPT"
  by (simp add: COMPARISON_SYSTEM_PROMPT_def DIRECT_PATH_SYSTEM_PROMPT_def)

lemma run_recommendation_system_prompt:
  "\<forall>msgs \<in> set (fst (run_recommendation py llm s)).
      hd msgs = SystemMessage (if decision_type s = Some ''comparison''
                               then COMPARISON_SYSTEM_PROMPT else DIRECT_PATH_SYSTEM_PROMPT)"
proof (cases "missing_text py (or_else (missing_information s) (JArr []))")
  case (Inl e)
  then show ?thesis
    using run_recommendation_comparison_raises [of s py e llm]
      run_recommendation_direct_raises [of s py e llm]
    by (cases "decision_type s = Some ''comparison''") simp_all
next
  case (Inr line)
  then show ?thesis
    using run_recommendation_comparison [of s py line llm]
      run_recommendation_direct [of s py line llm]
    by (cases "decision_type s = Some ''comparison''")
       (simp_all add: comparison_messages_def direct_messages_def Let_def)
qed

text \<open>
  Claim C8. The tests of \<open>run_recommendation\<close> and of \<open>compile_response\<close> give the same
  arm on every state: the comparison arm if \<open>decision_type\<close> holds \<open>comparison\<close>, and the
  direct-path arm if it is unset or holds anything else. The arms show in what the
  stages do: \<open>compile_response\<close> makes no backend call exactly on its comparison arm,
  and every call of \<open>run_recommendation\<close> starts with the system prompt of the arm that
  the Coordinator takes (the two prompts differ).
\<close>

theorem stages_branch_identically:
  "recommendation_branch s = coordinator_branch s
   \<and> (recommendation_branch s = Comparison \<longleftrightarrow> decision_type s = Some ''comparison'')
   \<and> (decision_type s = None \<or> (\<exists>k. decision_type s = Some k \<and> k \<noteq> ''comparison'') \<longrightarrow>
        recommendation_branch s = DirectPath \<and> coordinator_branch s = DirectPath)
   \<and> (fst (compile_response py llm s) = [] \<longleftrightarrow> coordinator_branch s = Comparison)
   \<and> (\<forall>msgs \<in> set (fst (run_recommendation py llm' s)).
         hd msgs = SystemMessage (if coordinator_branch s = Comparison
                                  then COMPARISON_SYSTEM_PROMPT else DIRECT_PATH_SYSTEM_PROMPT))
   \<and> COMPARISON_SYSTEM_PROMPT \<noteq> DIRECT_PATH_SYSTEM_PROMPT"
proof (intro conjI)
  show "recommendation_branch s = coordinator_branch s"
    by (simp add: recommendation_branch_def coordinator_branch_def)
  show "recommendation_branch s = Comparison \<longleftrightarrow> decision_type s = Some ''comparison''"
    by (rule recommendation_branch_iff)
  show "decision_type s = None \<or> (\<exists>k. decision_type s = Some k \<and> k \<noteq> ''comparison'') \<longrightarrow>
        recommendation_branch s = DirectPath \<and> coordinator_branch s = DirectPath"
    using recommendation_branch_iff [of s] coordinator_branch_iff [of s]
    by (cases "recommendation_branch s"; cases "coordinator_branch s") auto
  show "fst (compile_response py llm s) = [] \<longleftrightarrow> coordinator_branch s = Comparison"
    using compile_response_comparison [of s py llm] compile_response_direct [of s py llm]
    by (cases "decision_type s = Some ''comparison''") (simp_all add: coordinator_branch_iff)
  show "\<forall>msgs \<in> set (fst (run_recommendation py llm' s)).
         hd msgs = SystemMessage (if coordinator_branch s = Comparison
                                  then COMPARISON_SYSTEM_PROMPT else DIRECT_PATH_SYSTEM_PROMPT)"
    using run_recommendation_system_prompt [of py llm' s]
    by (simp add: coordinator_branch_iff)
  show "COMPARISON_SYSTEM_PROMPT \<noteq> DIRECT_PATH_SYSTEM_PROMPT"
    by (rule prompts_differ)
qed

theorem stages_branch_identically_witness:
  "recommendation_branch comparison_state = Comparison
   \<and> coordinator_branch comparison_state = Comparison
   \<and> decision_type (initial_state query_ml) = None
   \<and> recommendation_branch (initial_state query_ml) = DirectPath
   \<and> coordinator_branch (initial_state query_ml) = DirectPath
   \<and> decision_type (direct_state\<lparr>decision_type := Some ''undecided''\<rparr>) = Some ''undecided''
   \<and> recommendation_branch (direct_state\<lparr>decision_type := Some ''undecided''\<rparr>) = DirectPath
   \<and> coordinator_branch (direct_state\<lparr>decision_type := Some ''undecided''\<rparr>) = DirectPath
   \<and> fst (compile_response (ascii_runtime not_json) (always ''I cannot answer that.'')
            comparison_state) = []
   \<and> map hd (fst (run_recommendation (ascii_runtime not_json) (always ''I cannot answer that.'')
            comparison_state)) = [SystemMessage COMPARISON_SYSTEM_PROMPT]"
proof -
  let ?py = "ascii_runtime not_json"
  let ?llm = "always ''I cannot answer that.''"
  let ?other = "direct_state\<lparr>decision_type := Some ''undecided''\<rparr>"
  have kind: "decision_type comparison_state = Some ''comparison''"
    by (simp add: comparison_state_def)
  have unset: "decision_type (initial_state query_ml) = None"
    by (simp add: initial_state_def)
  have other: "decision_type ?other = Some ''undecided''"
    by simp
  have line: "missing_text ?py (or_else (missing_information comparison_state) (JArr []))
                = Inr ''current year of study''"
    by code_simp
  have one_call: "fst (run_recommendation ?py ?llm comparison_state)
      = [comparison_messages (or_list (interpreted_goal comparison_state) (user_input comparison_state))
           (or_list (extracted_constraints comparison_state) []) ''current year of study'']"
    by (simp add: run_recommendation_comparison [OF kind line])
  from stages_branch_identically [of comparison_state ?py ?llm ?llm] kind
  have a: "recommendation_branch comparison_state = Comparison"
    and b: "coordinator_branch comparison_state = Comparison"
    and c: "fst (compile_response ?py ?llm comparison_state) = []"
    and d: "\<forall>msgs \<in> set (fst (run_recommendation ?py ?llm comparison_state)).
              hd msgs = SystemMessage COMPARISON_SYSTEM_PROMPT"
    by auto
  from d one_call
  have e: "map hd (fst (run_recommendation ?py ?llm comparison_state))
             = [SystemMessage COMPARISON_SYSTEM_PROMPT]"
    by simp
  from stages_branch_identically [of "initial_state query_ml" ?py ?llm ?llm] unset
  have f: "recommendation_branch (initial_state query_ml) = DirectPath"
    and g: "coordinator_branch (initial_state query_ml) = DirectPath"
    by auto
  from stages_branch_identically [of ?other ?py ?llm ?llm]
  have h: "recommendation_branch ?other = DirectPath"
    and i: "coordinator_branch ?other = DirectPath"
    by auto
  from a b unset f g other h i c e show ?thesis
    by (intro conjI)
qed

section \<open>Each stage writes only its own fields\<close>

lemma run_recommendation_Inr:
  assumes "snd (run_recommendation py llm s) = Inr s'"
  shows "\<exists>r. s' = s\<lparr>recommendations := Some r\<rparr>"
proof (cases "missing_text py (or_else (missing_information s) (JArr []))")
  case (Inl e)
  with assms show ?thesis
    using run_recommendation_comparison_raises [of s py e llm]
      run_recommendation_direct_raises [of s py e llm]
    by (cases "decision_type s = Some ''comparison''") simp_all
next
  case (Inr line)
  show ?thesis
  proof (cases "decision_type s = Some ''comparison''")
    case True
    from run_recommendation_comparison [OF True Inr, of llm] assms show ?thesis
      by auto
  next
    case False
    from run_recommendation_direct [OF False Inr, of llm] assms show ?thesis
      by (auto split: option.splits if_splits)
  qed
qed

lemma compile_response_Inr:
  assumes "snd (compile_response py llm s) = Inr s'"
  shows "\<exists>t. s' = s\<lparr>final_response := Some t\<rparr>"
  using assms compile_response_comparison [of s py llm] compile_response_direct [of s py llm]
  by (cases "decision_type s = Some ''comparison''") (auto simp: and_then_eq_Inr)

text \<open>
  Claim C9. A state returned by \<open>run_domain_reasoning\<close> is the input state with
  \<open>interpreted_goal\<close>, \<open>extracted_constraints\<close>, \<open>missing_information\<close>,
  \<open>confidence_score\<close> and \<open>decision_type\<close> updated; one returned by
  \<open>run_recommendation\<close> is the input state with \<open>recommendations\<close> updated; one returned
  by \<open>compile_response\<close> is the input state with \<open>final_response\<close> updated. The result is
  a new value and every other field, \<open>user_input\<close> among them, is the input's. So along
  the pipeline, whatever the runtime and backend of each stage, no later stage changes
  what an earlier one wrote.
\<close>

theorem stages_update_only_their_fields:
  "(\<forall>s'. snd (run_domain_reasoning py llm s) = Inr s' \<longrightarrow>
       (\<exists>g cs m c k. s' = s\<lparr>interpreted_goal := g, extracted_constraints := Some cs,
                             missing_information := m, confidence_score := Some c,
                             decision_type := Some k\<rparr>))
   \<and> (\<forall>s'. snd (run_recommendation py llm s) = Inr s' \<longrightarrow>
       (\<exists>r. s' = s\<lparr>recommendations := Some r\<rparr>))
   \<and> (\<forall>s'. snd (compile_response py llm s) = Inr s' \<longrightarrow>
       (\<exists>t. s' = s\<lparr>final_response := Some t\<rparr>))
   \<and> (\<forall>s1 s2 s3.
         snd (run_domain_reasoning py llm s) = Inr s1 \<longrightarrow>
         snd (run_recommendation py2 llm2 s1) = Inr s2 \<longrightarrow>
         snd (compile_response py3 llm3 s2) = Inr s3 \<longrightarrow>
           user_input s3 = user_input s
           \<and> interpreted_goal s3 = interpreted_goal s1
           \<and> extracted_constraints s3 = extracted_constraints s1
           \<and> missing_information s3 = missing_information s1
           \<and> confidence_score s3 = confidence_score s1
           \<and> decision_type s3 = decision_type s1
           \<and> recommendations s3 = recommendations s2)"
proof (intro conjI allI impI)
  fix s'
  assume "snd (run_domain_reasoning py llm s) = Inr s'"
  from run_domain_reasoning_Inr [OF this]
  show "\<exists>g cs m c k. s' = s\<lparr>interpreted_goal := g, extracted_constraints := Some cs,
                             missing_information := m, confidence_score := Some c,
                             decision_type := Some k\<rparr>"
    by blast
next
  fix s'
  assume "snd (run_recommendation py llm s) = Inr s'"
  then show "\<exists>r. s' = s\<lparr>recommendations := Some r\<rparr>"
    by (rule run_recommendation_Inr)
next
  fix s'
  assume "snd (compile_response py llm s) = Inr s'"
  then show "\<exists>t. s' = s\<lparr>final_response := Some t\<rparr>"
    by (rule compile_response_Inr)
next
  fix s1 s2 s3
  assume "snd (run_domain_reasoning py llm s) = Inr s1"
    and "snd (run_recommendation py2 llm2 s1) = Inr s2"
    and "snd (compile_response py3 llm3 s2) = Inr s3"
  from run_domain_reasoning_Inr [OF this(1)] run_recommendation_Inr [OF this(2)]
    compile_response_Inr [OF this(3)]
  obtain g cs m c k r t where
    "s1 = s\<lparr>interpreted_goal := g, extracted_constraints := Some cs,
            missing_information := m, confidence_score := Some c, decision_type := Some k\<rparr>"
    "s2 = s1\<lparr>recommendations := Some r\<rparr>" "s3 = s2\<lparr>final_response := Some t\<rparr>"
    by blast
  then show "user_input s3 = user_input s" "interpreted_goal s3 = interpreted_goal s1"
    "extracted_constraints s3 = extracted_constraints s1"
    "missing_information s3 = missing_information s1"
    "confidence_score s3 = confidence_score s1"
    "decision_type s3 = decision_type s1"
    "recommendations s3 = recommendations s2"
    by simp_all
qed

theorem stages_update_only_their_fields_witness:
  "snd (run_domain_reasoning
          (ascii_runtime (parses which_answer_text (JObj which_answer_items)))
          (always which_answer_text) (initial_state query_ml)) = Inr comparison_state
   \<and> snd (run_recommendation (ascii_runtime (parses full_plan_text (JObj full_plan_items)))
            (always full_plan_text) comparison_state)
       = Inr (comparison_state\<lparr>recommendations := Some (JObj full_plan_items)\<rparr>)
   \<and> snd (compile_response (ascii_runtime not_json) (always ''I cannot answer that.'')
            (comparison_state\<lparr>recommendations := Some (JObj full_plan_items)\<rparr>))
       = Inr (comparison_state
               \<lparr>recommendations := Some (JObj full_plan_items),
                final_response := Some
                  (intro
                   @ ''**Week 1 '' @ em_dash @ '' Backend Development**\<newline>''
                   @ ''- Build a REST API.\<newline>\<newline>''
                   @ ''**Week 2 '' @ em_dash @ '' Machine Learning**\<newline>''
                   @ ''- Train a classifier.\<newline>\<newline>''
                   @ ''After completing both phases, reflect on:\<newline>''
                   @ ''- Which work felt more engaging?\<newline>''
                   @ ''- Which learning curve felt sustainable?\<newline>''
                   @ ''- Which problems excited you more?\<newline>''
                   @ ''\<newline>Pick the one you enjoyed.'')\<rparr>)
   \<and> user_input (comparison_state\<lparr>recommendations := Some (JObj full_plan_items)\<rparr>) = query_ml
   \<and> decision_type (comparison_state\<lparr>recommendations := Some (JObj full_plan_items)\<rparr>)
       = decision_type comparison_state"
proof -
  let ?py1 = "ascii_runtime (parses which_answer_text (JObj which_answer_items))"
  let ?py2 = "ascii_runtime (parses full_plan_text (JObj full_plan_items))"
  let ?py3 = "ascii_runtime not_json"
  let ?s2 = "comparison_state\<lparr>recommendations := Some (JObj full_plan_items)\<rparr>"
  let ?s3 = "comparison_state
               \<lparr>recommendations := Some (JObj full_plan_items),
                final_response := Some
                  (intro
                   @ ''**Week 1 '' @ em_dash @ '' Backend Development**\<newline>''
                   @ ''- Build a REST API.\<newline>\<newline>''
                   @ ''**Week 2 '' @ em_dash @ '' Machine Learning**\<newline>''
                   @ ''- Train a classifier.\<newline>\<newline>''
                   @ ''After completing both phases, reflect on:\<newline>''
                   @ ''- Which work felt more engaging?\<newline>''
                   @ ''- Which learning curve felt sustainable?\<newline>''
                   @ ''- Which problems excited you more?\<newline>''
                   @ ''\<newline>Pick the one you enjoyed.'')\<rparr>"
  have first: "snd (run_domain_reasoning ?py1 (always which_answer_text) (initial_state query_ml))
                 = Inr comparison_state"
    by code_simp
  have second: "snd (run_recommendation ?py2 (always full_plan_text) comparison_state) = Inr ?s2"
    by code_simp
  have third: "snd (compile_response ?py3 (always ''I cannot answer that.'') ?s2) = Inr ?s3"
    by code_simp
  have start: "user_input (initial_state query_ml) = query_ml"
    by (simp add: initial_state_def)
  note all = stages_update_only_their_fields
    [of ?py1 "always which_answer_text" "initial_state query_ml"
        ?py2 "always full_plan_text" ?py3 "always ''I cannot answer that.''"]
  from all first second third
  have "user_input ?s3 = user_input (initial_state query_ml)
      \<and> decision_type ?s3 = decision_type comparison_state"
    by blast
  with start have "user_input ?s2 = query_ml" "decision_type ?s2 = decision_type comparison_state"
    by simp_all
  with first second third show ?thesis
    by (intro conjI)
qed

section \<open>Coordinator: the comparison text\<close>

lemma foldl_bullets:
  "foldl (\<lambda>final criterion. final @ line criterion) start criteria
     = start @ concat (map line criteria)"
  by (induction criteria arbitrary: start) simp_all

lemma week_blocks_dicts:
  "week_blocks py (JArr (JObj e0 # JObj e1 # rest)) =
     Inr (''**Week 1 '' @ em_dash @ '' '' @ fmt py (get_or e0 ''focus'' (JStr ''Option A''))
            @ ''**\<newline>''
          @ ''- '' @ fmt py (get_or e0 ''task'' (JStr ''Explore this path'')) @ ''\<newline>\<newline>''
          @ ''**Week 2 '' @ em_dash @ '' '' @ fmt py (get_or e1 ''focus'' (JStr ''Option B''))
            @ ''**\<newline>''
          @ ''- '' @ fmt py (get_or e1 ''task'' (JStr ''Explore this path'')) @ ''\<newline>\<newline>'')"
  by (simp add: week_blocks_def py_index_def)

lemma comparison_text_lists:
  assumes "get_or items ''exploration_plan'' (JArr []) = JArr entries"
    and "get_or items ''decision_criteria'' (JArr []) = JArr criteria"
    and "(if 2 \<le> length entries then week_blocks py (JArr entries) else Inr []) = Inr weeks"
  shows "comparison_text py (JObj items) =
     Inr (intro @ weeks
          @ ''After completing both phases, reflect on:\<newline>''
          @ concat (map (\<lambda>criterion. ''- '' @ fmt py criterion @ ''\<newline>'') (take 3 criteria))
          @ (if truthy (get_or items ''final_suggestion'' (JStr []))
             then ''\<newline>'' @ fmt py (get_or items ''final_suggestion'' (JStr []))
             else []))"
  using assms
  by (simp add: comparison_text_def py_len_def first_three_def Let_def foldl_bullets)

text \<open>
  Claim C6, as stated, fails. A plan whose two entries are names passes the checks of
  Recommendation, and \<open>compile_response\<close> then raises \<^verbatim>\<open>AttributeError\<close> on
  \<^verbatim>\<open>plan[0].get\<close> instead of producing a response. And for entries without a
  \<open>focus\<close>, the Week 2 block defaults to \<open>Option B\<close>, not to \<open>Option A\<close>.
\<close>

theorem comparison_response_counterexample:
  "snd (run_recommendation (ascii_runtime (parses names_plan_text names_plan))
          (always names_plan_text) comparison_state)
     = Inr (comparison_state\<lparr>recommendations := Some names_plan\<rparr>)
   \<and> compile_response (ascii_runtime not_json) (always ''I cannot answer that.'')
        (comparison_state\<lparr>recommendations := Some names_plan\<rparr>)
     = ([], Inl AttributeError)
   \<and> map_sum id final_response
        (snd (compile_response (ascii_runtime not_json) (always ''I cannot answer that.'')
                (comparison_state\<lparr>recommendations := Some bare_plan\<rparr>)))
     = Inr (Some
         (intro
          @ ''**Week 1 '' @ em_dash @ '' Option A**\<newline>''
          @ ''- Explore this path\<newline>\<newline>''
          @ ''**Week 2 '' @ em_dash @ '' Option B**\<newline>''
          @ ''- Explore this path\<newline>\<newline>''
          @ ''After completing both phases, reflect on:\<newline>''
          @ ''- Which work felt more engaging?\<newline>''
          @ ''\<newline>Pick the one you enjoyed.''))"
  by code_simp

text \<open>
  Claim C6, amended. For every state with \<open>decision_type\<close> \<open>comparison\<close>,
  \<open>compile_response\<close> makes no backend call, and its outcome, a state or an exception,
  is the same under any two backends. When \<open>recommendations\<close> is a dict (or unset or
  empty, which counts as the empty dict) whose \<open>exploration_plan\<close> is a list with fewer
  than two entries or with two dicts as its first entries, and whose
  \<open>decision_criteria\<close> is a list (both default to the empty list), the stage returns
  the state with \<open>final_response\<close> set to: the fixed introduction; then, only if the plan
  has at least two entries, a Week 1 block from entry 0's \<open>focus\<close> and \<open>task\<close>
  (defaults \<open>Option A\<close>, \<open>Explore this path\<close>) and a Week 2 block from entry 1's
  (defaults \<open>Option B\<close>, \<open>Explore this path\<close>); then the line
  \<open>After completing both phases, reflect on:\<close> and the first three criteria at most,
  one bullet line each; then, if \<open>final_suggestion\<close> is true in Python's sense, an empty
  line and the suggestion.
\<close>

theorem comparison_response_assembled_without_backend:
  assumes "decision_type s = Some ''comparison''"
  shows "fst (compile_response py llm s) = []
   \<and> compile_response py llm' s = compile_response py llm s
   \<and> (\<forall>items e0 e1 rest criteria.
        or_else (recommendations s) (JObj []) = JObj items \<longrightarrow>
        get_or items ''exploration_plan'' (JArr []) = JArr (JObj e0 # JObj e1 # rest) \<longrightarrow>
        get_or items ''decision_criteria'' (JArr []) = JArr criteria \<longrightarrow>
        snd (compile_response py llm s) =
          Inr (s\<lparr>final_response := Some
            (intro
             @ ''**Week 1 '' @ em_dash @ '' '' @ fmt py (get_or e0 ''focus'' (JStr ''Option A''))
               @ ''**\<newline>''
             @ ''- '' @ fmt py (get_or e0 ''task'' (JStr ''Explore this path''))
               @ ''\<newline>\<newline>''
             @ ''**Week 2 '' @ em_dash @ '' '' @ fmt py (get_or e1 ''focus'' (JStr ''Option B''))
               @ ''**\<newline>''
             @ ''- '' @ fmt py (get_or e1 ''task'' (JStr ''Explore this path''))
               @ ''\<newline>\<newline>''
             @ ''After completing both phases, reflect on:\<newline>''
             @ concat (map (\<lambda>criterion. ''- '' @ fmt py criterion @ ''\<newline>'')
                         (take 3 criteria))
             @ (if truthy (get_or items ''final_suggestion'' (JStr []))
                then ''\<newline>'' @ fmt py (get_or items ''final_suggestion'' (JStr []))
                else []))\<rparr>))
   \<and> (\<forall>items entries criteria.
        or_else (recommendations s) (JObj []) = JObj items \<longrightarrow>
        get_or items ''exploration_plan'' (JArr []) = JArr entries \<longrightarrow>
        length entries < 2 \<longrightarrow>
        get_or items ''decision_criteria'' (JArr []) = JArr criteria \<longrightarrow>
        snd (compile_response py llm s) =
          Inr (s\<lparr>final_response := Some
            (intro
             @ ''After completing both phases, reflect on:\<newline>''
             @ concat (map (\<lambda>criterion. ''- '' @ fmt py criterion @ ''\<newline>'')
                         (take 3 criteria))
             @ (if truthy (get_or items ''final_suggestion'' (JStr []))
                then ''\<newline>'' @ fmt py (get_or items ''final_suggestion'' (JStr []))
                else []))\<rparr>))"
proof (intro conjI allI impI)
  show "fst (compile_response py llm s) = []"
    by (simp add: compile_response_comparison [OF assms])
  show "compile_response py llm' s = compile_response py llm s"
    by (simp add: compile_response_comparison [OF assms])
next
  fix items e0 e1 rest criteria
  assume recs: "or_else (recommendations s) (JObj []) = JObj items"
    and plan: "get_or items ''exploration_plan'' (JArr []) = JArr (JObj e0 # JObj e1 # rest)"
    and crit: "get_or items ''decision_criteria'' (JArr []) = JArr criteria"
  have weeks: "(if 2 \<le> length (JObj e0 # JObj e1 # rest)
                then week_blocks py (JArr (JObj e0 # JObj e1 # rest)) else Inr [])
     = Inr (''**Week 1 '' @ em_dash @ '' '' @ fmt py (get_or e0 ''focus'' (JStr ''Option A''))
            @ ''**\<newline>''
          @ ''- '' @ fmt py (get_or e0 ''task'' (JStr ''Explore this path'')) @ ''\<newline>\<newline>''
          @ ''**Week 2 '' @ em_dash @ '' '' @ fmt py (get_or e1 ''focus'' (JStr ''Option B''))
            @ ''**\<newline>''
          @ ''- '' @ fmt py (get_or e1 ''task'' (JStr ''Explore this path'')) @ ''\<newline>\<newline>'')"
    by (simp add: week_blocks_dicts)
  show "snd (compile_response py llm s) =
          Inr (s\<lparr>final_response := Some
            (intro
             @ ''**Week 1 '' @ em_dash @ '' '' @ fmt py (get_or e0 ''focus'' (JStr ''Option A''))
               @ ''**\<newline>''
             @ ''- '' @ fmt py (get_or e0 ''task'' (JStr ''Explore this path''))
               @ ''\<newline>\<newline>''
             @ ''**Week 2 '' @ em_dash @ '' '' @ fmt py (get_or e1 ''focus'' (JStr ''Option B''))
               @ ''**\<newline>''
             @ ''- '' @ fmt py (get_or e1 ''task'' (JStr ''Explore this path''))
               @ ''\<newline>\<newline>''
             @ ''After completing both phases, reflect on:\<newline>''
             @ concat (map (\<lambda>criterion. ''- '' @ fmt py criterion @ ''\<newline>'')
                         (take 3 criteria))
             @ (if truthy (get_or items ''final_suggestion'' (JStr []))
                then ''\<newline>'' @ fmt py (get_or items ''final_suggestion'' (JStr []))
                else []))\<rparr>)"
    unfolding compile_response_comparison [OF assms] recs
      comparison_text_lists [OF plan crit weeks]
    by simp
next
  fix items entries criteria
  assume recs: "or_else (recommendations s) (JObj []) = JObj items"
    and plan: "get_or items ''exploration_plan'' (JArr []) = JArr entries"
    and short: "length entries < 2"
    and crit: "get_or items ''decision_criteria'' (JArr []) = JArr criteria"
  from short have weeks: "(if 2 \<le> length entries then week_blocks py (JArr entries) else Inr [])
                = Inr []"
    by simp
  show "snd (compile_response py llm s) =
          Inr (s\<lparr>final_response := Some
            (intro
             @ ''After completing both phases, reflect on:\<newline>''
             @ concat (map (\<lambda>criterion. ''- '' @ fmt py criterion @ ''\<newline>'')
                         (take 3 criteria))
             @ (if truthy (get_or items ''final_suggestion'' (JStr []))
                then ''\<newline>'' @ fmt py (get_or items ''final_suggestion'' (JStr []))
                else []))\<rparr>)"
    unfolding compile_response_comparison [OF assms] recs
      comparison_text_lists [OF plan crit weeks]
    by simp
qed

theorem comparison_response_assembled_without_backend_witness:
  "decision_type (comparison_state\<lparr>recommendations := Some (JObj full_plan_items)\<rparr>)
     = Some ''comparison''
   \<and> or_else (recommendations (comparison_state\<lparr>recommendations := Some (JObj full_plan_items)\<rparr>))
        (JObj []) = JObj full_plan_items
   \<and> get_or full_plan_items ''exploration_plan'' (JArr [])
     = JArr [JObj [(''week'', JInt 1), (''focus'', JStr ''Backend Development''),
                   (''task'', JStr ''Build a REST API.'')],
             JObj [(''week'', JInt 2), (''focus'', JStr ''Machine Learning''),
                   (''task'', JStr ''Train a classifier.'')]]
   \<and> get_or full_plan_items ''decision_criteria'' (JArr [])
     = JArr [JStr ''Which work felt more engaging?'',
             JStr ''Which learning curve felt sustainable?'',
             JStr ''Which problems excited you more?'',
             JStr ''Which path pays better?'']
   \<and> compile_response (ascii_runtime not_json) (always ''I cannot answer that.'')
        (comparison_state\<lparr>recommendations := Some (JObj full_plan_items)\<rparr>)
     = ([], Inr (comparison_state
               \<lparr>recommendations := Some (JObj full_plan_items),
                final_response := Some
                  (intro
                   @ ''**Week 1 '' @ em_dash @ '' Backend Development**\<newline>''
                   @ ''- Build a REST API.\<newline>\<newline>''
                   @ ''**Week 2 '' @ em_dash @ '' Machine Learning**\<newline>''
                   @ ''- Train a classifier.\<newline>\<newline>''
                   @ ''After completing both phases, reflect on:\<newline>''
                   @ ''- Which work felt more engaging?\<newline>''
                   @ ''- Which learning curve felt sustainable?\<newline>''
                   @ ''- Which problems excited you more?\<newline>''
                   @ ''\<newline>Pick the one you enjoyed.'')\<rparr>))"
proof -
  let ?py = "ascii_runtime not_json"
  let ?llm = "always ''I cannot answer that.''"
  let ?s = "comparison_state\<lparr>recommendations := Some (JObj full_plan_items)\<rparr>"
  have kind: "decision_type ?s = Some ''comparison''"
    by (simp add: comparison_state_def)
  have recs: "or_else (recommendations ?s) (JObj []) = JObj full_plan_items"
    by (simp add: or_else_def full_plan_items_def)
  have plan: "get_or full_plan_items ''exploration_plan'' (JArr [])
     = JArr [JObj [(''week'', JInt 1), (''focus'', JStr ''Backend Development''),
                   (''task'', JStr ''Build a REST API.'')],
             JObj [(''week'', JInt 2), (''focus'', JStr ''Machine Learning''),
                   (''task'', JStr ''Train a classifier.'')]]"
    by (simp add: get_or_def full_plan_items_def)
  have crit: "get_or full_plan_items ''decision_criteria'' (JArr [])
     = JArr [JStr ''Which work felt more engaging?'',
             JStr ''Which learning curve felt sustainable?'',
             JStr ''Which problems excited you more?'',
             JStr ''Which path pays better?'']"
    by (simp add: get_or_def full_plan_items_def)
  have run: "snd (compile_response ?py ?llm ?s)
     = Inr (comparison_state
               \<lparr>recommendations := Some (JObj full_plan_items),
                final_response := Some
                  (intro
                   @ ''**Week 1 '' @ em_dash @ '' Backend Development**\<newline>''
                   @ ''- Build a REST API.\<newline>\<newline>''
                   @ ''**Week 2 '' @ em_dash @ '' Machine Learning**\<newline>''
                   @ ''- Train a classifier.\<newline>\<newline>''
                   @ ''After completing both phases, reflect on:\<newline>''
                   @ ''- Which work felt more engaging?\<newline>''
                   @ ''- Which learning curve felt sustainable?\<newline>''
                   @ ''- Which problems excited you more?\<newline>''
                   @ ''\<newline>Pick the one you enjoyed.'')\<rparr>)"
    by code_simp
  from comparison_response_assembled_without_backend [of ?s ?py ?llm ?llm, OF kind]
  have no_call: "fst (compile_response ?py ?llm ?s) = []"
    by (elim conjE)
  from no_call run have "compile_response ?py ?llm ?s
     = ([], Inr (comparison_state
               \<lparr>recommendations := Some (JObj full_plan_items),
                final_response := Some
                  (intro
                   @ ''**Week 1 '' @ em_dash @ '' Backend Development**\<newline>''
                   @ ''- Build a REST API.\<newline>\<newline>''
                   @ ''**Week 2 '' @ em_dash @ '' Machine Learning**\<newline>''
                   @ ''- Train a classifier.\<newline>\<newline>''
                   @ ''After completing both phases, reflect on:\<newline>''
                   @ ''- Which work felt more engaging?\<newline>''
                   @ ''- Which learning curve felt sustainable?\<newline>''
                   @ ''- Which problems excited you more?\<newline>''
                   @ ''\<newline>Pick the one you enjoyed.'')\<rparr>))"
    by (rule prod_eqI [where q = "([], _)", unfolded fst_conv snd_conv])
  with kind recs plan crit show ?thesis
    by (intro conjI)
qed


end
